theory Spec2Isabelle
  imports
    Complex_Main
    "HOL-Library.List_Lexorder"
    "HOL-Library.Char_ord"
    "HOL-Library.Product_Lexorder"
begin

section \<open>Numbers, errors and dates\<close>

text \<open>
  The analytics functions compute on float64 values.  Rounding is not modelled here: a
  finite value is an exact real (the section on sums in float64 adds rounding, for the
  one property that depends on it).  The special values that the code can produce by dividing by
  zero (infinities and NaN) are modelled, with the IEEE rules for them.  Signed zeros
  are not distinguished (every zero divisor in the code is a count or a sum, hence
  \<open>+0\<close>).
\<close>

datatype fl = Fin real | PInf | NInf | NaN

fun fl_neg :: "fl \<Rightarrow> fl" where
  "fl_neg (Fin x) = Fin (- x)"
| "fl_neg PInf = NInf"
| "fl_neg NInf = PInf"
| "fl_neg NaN = NaN"

fun fl_add :: "fl \<Rightarrow> fl \<Rightarrow> fl" where
  "fl_add NaN y = NaN"
| "fl_add x NaN = NaN"
| "fl_add (Fin x) (Fin y) = Fin (x + y)"
| "fl_add PInf NInf = NaN"
| "fl_add NInf PInf = NaN"
| "fl_add PInf y = PInf"
| "fl_add NInf y = NInf"
| "fl_add (Fin x) PInf = PInf"
| "fl_add (Fin x) NInf = NInf"

definition fl_sub :: "fl \<Rightarrow> fl \<Rightarrow> fl" where
  "fl_sub x y = fl_add x (fl_neg y)"

text \<open>The sign of a value that is not NaN: \<open>-1\<close>, \<open>0\<close> or \<open>1\<close>.\<close>

fun fl_sgn :: "fl \<Rightarrow> int" where
  "fl_sgn (Fin x) = (if x = 0 then 0 else if 0 < x then 1 else - 1)"
| "fl_sgn PInf = 1"
| "fl_sgn NInf = - 1"
| "fl_sgn NaN = 0"

definition signed_inf :: "int \<Rightarrow> fl" where
  "signed_inf s = (if s = 0 then NaN else if 0 < s then PInf else NInf)"

fun fl_mul :: "fl \<Rightarrow> fl \<Rightarrow> fl" where
  "fl_mul NaN y = NaN"
| "fl_mul x NaN = NaN"
| "fl_mul (Fin x) (Fin y) = Fin (x * y)"
| "fl_mul x y = signed_inf (fl_sgn x * fl_sgn y)"

fun fl_div :: "fl \<Rightarrow> fl \<Rightarrow> fl" where
  "fl_div NaN y = NaN"
| "fl_div x NaN = NaN"
| "fl_div (Fin x) (Fin y) = (if y = 0 then signed_inf (fl_sgn (Fin x)) else Fin (x / y))"
| "fl_div (Fin x) y = Fin 0"
| "fl_div x (Fin y) = signed_inf (fl_sgn x * (if y < 0 then - 1 else 1))"
| "fl_div x y = NaN"

text \<open>Comparisons: every comparison with NaN is false.\<close>

fun fl_lt :: "fl \<Rightarrow> fl \<Rightarrow> bool" where
  "fl_lt NaN y = False"
| "fl_lt x NaN = False"
| "fl_lt (Fin x) (Fin y) = (x < y)"
| "fl_lt x NInf = False"
| "fl_lt PInf y = False"
| "fl_lt x y = True"

definition fl_gt :: "fl \<Rightarrow> fl \<Rightarrow> bool" where
  "fl_gt x y = fl_lt y x"

definition isna :: "fl \<Rightarrow> bool" where
  "isna x = (x = NaN)"

datatype error = KeyError string | ZeroDivisionError | TypeError | ValueError

text \<open>
  Python's \<open>/\<close>.  On built-in numbers a zero divisor raises ZeroDivisionError; when an
  operand is a numpy scalar (such as the result of \<open>df["revenue"].sum()\<close>) the quotient
  follows IEEE instead.  The flag \<open>np\<close> says which of the two the operands are.
\<close>

definition truediv :: "bool \<Rightarrow> fl \<Rightarrow> fl \<Rightarrow> error + fl" where
  "truediv np x y = (if y = Fin 0 \<and> \<not> np then Inl ZeroDivisionError else Inr (fl_div x y))"

text \<open>
  A calendar date or a midnight timestamp: (year, month, day), month from 1 to 12.  The
  order of dates is the order of the triples.
\<close>

type_synonym date = "int \<times> nat \<times> nat"

definition date_year :: "date \<Rightarrow> int" where
  "date_year d = fst d"

definition date_month :: "date \<Rightarrow> nat" where
  "date_month d = fst (snd d)"

definition date_day :: "date \<Rightarrow> nat" where
  "date_day d = snd (snd d)"

text \<open>
  A calendar month, the value of \<open>to_period("M")\<close>.  \<open>monthly_kpis\<close> renders it as the
  label \<open>YYYY-MM\<close> and \<open>prepare_monthly_series\<close> as the timestamp of its first day; both
  are ordered as the pair (year, month) is, for the four-digit years of a pandas
  timestamp.
\<close>

type_synonym period = "int \<times> nat"

definition to_period :: "date \<Rightarrow> period" where
  "to_period d = (date_year d, date_month d)"

definition to_timestamp :: "period \<Rightarrow> date" where
  "to_timestamp p = (fst p, snd p, 1)"

section \<open>The dataset\<close>

text \<open>
  A DataFrame of sales records is the list of the column names it has and its rows.  A
  row carries a typed cell for each of the eight columns of the schema and for the
  column \<open>order_month\<close> that the KPI engine and the forecaster add to their private copy;
  the cell of a column that \<open>columns\<close> does not list is never read (every access checks
  \<open>columns\<close> first and raises KeyError).  An order id may be missing (NaN), which
  \<open>nunique\<close> skips.
\<close>

record sales_row =
  order_id :: "nat option"
  order_date :: date
  product_name :: string
  category :: string
  region :: string
  quantity :: int
  unit_price :: real
  revenue :: real
  order_month :: period

record frame =
  columns :: "string list"
  rows :: "sales_row list"

definition has_col :: "frame \<Rightarrow> string \<Rightarrow> bool" where
  "has_col df c = (c \<in> set (columns df))"

section \<open>Validator (core/validation.py)\<close>

definition REQUIRED_COLUMNS :: "string list" where
  "REQUIRED_COLUMNS =
     [''order_id'', ''order_date'', ''product_name'', ''category'', ''region'',
      ''quantity'', ''unit_price'', ''revenue'']"

definition missing_cols :: "frame \<Rightarrow> string set" where
  "missing_cols df = set REQUIRED_COLUMNS - set (columns df)"

text \<open>
  \<open>list(missing_cols)\<close> enumerates the set once, in an order Python does not specify:
  \<open>validate_schema df out\<close> says that \<open>out\<close> is a list the call may return.
\<close>

definition validate_schema :: "frame \<Rightarrow> string list \<Rightarrow> bool" where
  "validate_schema df out = (distinct out \<and> set out = missing_cols df)"

section \<open>The store of DataFrame objects\<close>

text \<open>
  A DataFrame is a mutable object: a function that receives one receives a reference,
  and a column assignment \<open>df[c] = v\<close> changes the object that \<open>df\<close> refers to.  The
  store is the list of the objects allocated so far, a reference is an index into it.
  \<open>df.copy()\<close> allocates a new object with the same content and returns its reference.
\<close>

definition df_copy :: "'f list \<Rightarrow> nat \<Rightarrow> nat \<times> 'f list" where
  "df_copy st a = (length st, st @ [st ! a])"

text \<open>
  \<open>df["order_month"] = vals\<close> on a frame of sales records: the column is appended when
  the frame does not have it yet, and overwritten otherwise.
\<close>

definition setitem_order_month :: "frame \<Rightarrow> period list \<Rightarrow> frame" where
  "setitem_order_month df vals =
     \<lparr>columns = (if ''order_month'' \<in> set (columns df) then columns df
                  else columns df @ [''order_month'']),
      rows = map2 (\<lambda>r v. r\<lparr>order_month := v\<rparr>) (rows df) vals\<rparr>"

text \<open>
  \<open>groupby(key)\<close>: the groups are the distinct keys in ascending order, and a group
  holds the rows with its key, in their order.
\<close>

definition group_keys :: "('r \<Rightarrow> 'k::linorder) \<Rightarrow> 'r list \<Rightarrow> 'k list" where
  "group_keys key rs = sort (remdups (map key rs))"

definition group_rows :: "('r \<Rightarrow> 'k) \<Rightarrow> 'k \<Rightarrow> 'r list \<Rightarrow> 'r list" where
  "group_rows key k rs = filter (\<lambda>r. key r = k) rs"

text \<open>\<open>nunique\<close>: the number of distinct values, missing ones not counted.\<close>

definition nunique :: "'a option list \<Rightarrow> nat" where
  "nunique xs = length (remdups (List.map_filter (\<lambda>x. x) xs))"

section \<open>KPI engine: rows of a monthly table (core/kpi.py)\<close>

text \<open>
  A monthly table (the result of \<open>monthly_kpis\<close>, the private copy that
  \<open>revenue_decomposition\<close> extends, and its result) has the columns named in \<open>mcolumns\<close>;
  a row has a typed cell for each column that the KPI engine ever creates.
\<close>

record monthly_row =
  m_order_month :: period
  m_revenue :: real
  orders :: nat
  aov :: fl
  prev_revenue :: fl
  prev_orders :: fl
  prev_aov :: fl
  revenue_change :: fl
  orders_effect :: fl
  aov_effect :: fl

record monthly_frame =
  mcolumns :: "string list"
  mrows :: "monthly_row list"

text \<open>
  One row of \<open>groupby("order_month").agg(revenue=("revenue", "sum"),
  orders=("order_id", "nunique"))\<close> with its \<open>aov\<close>.  The revenue of the group is added
  exactly here; \<open>monthly_revenue64\<close> below is the same column with the rounded sum that
  float64 gives.
\<close>

definition monthly_agg_row :: "sales_row list \<Rightarrow> period \<Rightarrow> monthly_row" where
  "monthly_agg_row rs k =
     (let g = group_rows order_month k rs;
          rev = sum_list (map revenue g);
          n = nunique (map order_id g)
      in \<lparr>m_order_month = k, m_revenue = rev, orders = n,
          aov = fl_div (Fin rev) (Fin (real n)),
          prev_revenue = NaN, prev_orders = NaN, prev_aov = NaN,
          revenue_change = NaN, orders_effect = NaN, aov_effect = NaN\<rparr>)"

text \<open>
  \<open>monthly_kpis\<close>, lines 4 to 17.  The grouping, the two aggregations and the quotient
  \<open>aov\<close> build new objects from the private copy; only the copy is written to.
\<close>

definition monthly_kpis :: "frame list \<Rightarrow> nat \<Rightarrow> frame list \<times> (error + monthly_frame)" where
  "monthly_kpis st df0 =
     (let (df, st) = df_copy st df0 in
      if \<not> has_col (st ! df) ''order_date'' then (st, Inl (KeyError ''order_date''))
      else
        let st = st[df := setitem_order_month (st ! df)
                            (map (\<lambda>r. to_period (order_date r)) (rows (st ! df)))] in
        if \<not> has_col (st ! df) ''revenue'' then (st, Inl (KeyError ''revenue''))
        else if \<not> has_col (st ! df) ''order_id'' then (st, Inl (KeyError ''order_id''))
        else
          (st, Inr \<lparr>mcolumns = [''order_month'', ''revenue'', ''orders'', ''aov''],
                    mrows = map (monthly_agg_row (rows (st ! df)))
                              (group_keys order_month (rows (st ! df)))\<rparr>))"

text \<open>\<open>Series.shift(1)\<close>: every value moves down one row, the first row gets NaN.\<close>

definition shift1 :: "fl list \<Rightarrow> fl list" where
  "shift1 xs = (if xs = [] then [] else NaN # butlast xs)"

text \<open>
  \<open>df[c] = vals\<close> on a monthly table, for a float column \<open>c\<close> whose cell is written by
  \<open>upd\<close>.
\<close>

definition msetitem ::
  "string \<Rightarrow> (monthly_row \<Rightarrow> fl \<Rightarrow> monthly_row) \<Rightarrow> monthly_frame \<Rightarrow> fl list \<Rightarrow> monthly_frame" where
  "msetitem c upd df vals =
     \<lparr>mcolumns = (if c \<in> set (mcolumns df) then mcolumns df else mcolumns df @ [c]),
      mrows = map2 upd (mrows df) vals\<rparr>"

definition mhas_col :: "monthly_frame \<Rightarrow> string \<Rightarrow> bool" where
  "mhas_col df c = (c \<in> set (mcolumns df))"

text \<open>
  \<open>dropna()\<close> returns a new table without the rows that hold NaN in some column the
  table has.  The month label, the revenue sum and the order count are never NaN.
\<close>

definition row_has_na :: "string list \<Rightarrow> monthly_row \<Rightarrow> bool" where
  "row_has_na cols r =
     ((''aov'' \<in> set cols \<and> isna (aov r)) \<or>
      (''prev_revenue'' \<in> set cols \<and> isna (prev_revenue r)) \<or>
      (''prev_orders'' \<in> set cols \<and> isna (prev_orders r)) \<or>
      (''prev_aov'' \<in> set cols \<and> isna (prev_aov r)) \<or>
      (''revenue_change'' \<in> set cols \<and> isna (revenue_change r)) \<or>
      (''orders_effect'' \<in> set cols \<and> isna (orders_effect r)) \<or>
      (''aov_effect'' \<in> set cols \<and> isna (aov_effect r)))"

definition dropna :: "monthly_frame \<Rightarrow> monthly_frame" where
  "dropna df = \<lparr>mcolumns = mcolumns df,
                mrows = filter (\<lambda>r. \<not> row_has_na (mcolumns df) r) (mrows df)\<rparr>"

text \<open>
  \<open>revenue_decomposition\<close>, lines 20 to 41.  The six column assignments write to the
  private copy; \<open>dropna\<close> and the final selection of columns build new tables.
\<close>

definition revenue_decomposition ::
  "monthly_frame list \<Rightarrow> nat \<Rightarrow> monthly_frame list \<times> (error + monthly_frame)" where
  "revenue_decomposition st monthly_df =
     (let (df, st) = df_copy st monthly_df in
      if \<not> mhas_col (st ! df) ''revenue'' then (st, Inl (KeyError ''revenue''))
      else
        let st = st[df := msetitem ''prev_revenue'' (\<lambda>r v. r\<lparr>prev_revenue := v\<rparr>) (st ! df)
                            (shift1 (map (\<lambda>r. Fin (m_revenue r)) (mrows (st ! df))))] in
        if \<not> mhas_col (st ! df) ''orders'' then (st, Inl (KeyError ''orders''))
        else
          let st = st[df := msetitem ''prev_orders'' (\<lambda>r v. r\<lparr>prev_orders := v\<rparr>) (st ! df)
                              (shift1 (map (\<lambda>r. Fin (real (orders r))) (mrows (st ! df))))] in
          if \<not> mhas_col (st ! df) ''aov'' then (st, Inl (KeyError ''aov''))
          else
            let st = st[df := msetitem ''prev_aov'' (\<lambda>r v. r\<lparr>prev_aov := v\<rparr>) (st ! df)
                                (shift1 (map aov (mrows (st ! df))))];
                st = st[df := msetitem ''revenue_change'' (\<lambda>r v. r\<lparr>revenue_change := v\<rparr>)
                                (st ! df)
                                (map (\<lambda>r. fl_sub (Fin (m_revenue r)) (prev_revenue r))
                                   (mrows (st ! df)))];
                st = st[df := msetitem ''orders_effect'' (\<lambda>r v. r\<lparr>orders_effect := v\<rparr>)
                                (st ! df)
                                (map (\<lambda>r. fl_mul (fl_sub (Fin (real (orders r))) (prev_orders r))
                                             (prev_aov r))
                                   (mrows (st ! df)))];
                st = st[df := msetitem ''aov_effect'' (\<lambda>r v. r\<lparr>aov_effect := v\<rparr>)
                                (st ! df)
                                (map (\<lambda>r. fl_mul (fl_sub (aov r) (prev_aov r))
                                             (Fin (real (orders r))))
                                   (mrows (st ! df)))];
                dropped = dropna (st ! df)
            in if \<not> mhas_col dropped ''order_month''
               then (st, Inl (KeyError ''order_month''))
               else (st, Inr \<lparr>mcolumns = [''order_month'', ''revenue'', ''revenue_change'',
                                            ''orders_effect'', ''aov_effect''],
                               mrows = mrows dropped\<rparr>))"

text \<open>
  For the proofs: the row of month \<open>i\<close> of the private copy after the six assignments,
  written from the rows \<open>rs\<close> of the table that was passed in.
\<close>

definition prev_val :: "(monthly_row \<Rightarrow> fl) \<Rightarrow> monthly_row list \<Rightarrow> nat \<Rightarrow> fl" where
  "prev_val g rs i = (if i = 0 then NaN else g (rs ! (i - 1)))"

definition work_row :: "monthly_row list \<Rightarrow> nat \<Rightarrow> monthly_row" where
  "work_row rs i =
     (let r = rs ! i;
          pr = prev_val (\<lambda>r. Fin (m_revenue r)) rs i;
          po = prev_val (\<lambda>r. Fin (real (orders r))) rs i;
          pa = prev_val aov rs i
      in r\<lparr>prev_revenue := pr, prev_orders := po, prev_aov := pa,
           revenue_change := fl_sub (Fin (m_revenue r)) pr,
           orders_effect := fl_mul (fl_sub (Fin (real (orders r))) po) pa,
           aov_effect := fl_mul (fl_sub (aov r) pa) (Fin (real (orders r)))\<rparr>)"

text \<open>For the proofs: the rows of the private copy after the six assignments.\<close>

definition chain6 :: "monthly_row list \<Rightarrow> monthly_row list" where
  "chain6 r0 =
    (let r1 = map2 (\<lambda>r v. r\<lparr>prev_revenue := v\<rparr>) r0 (shift1 (map (\<lambda>r. Fin (m_revenue r)) r0));
         r2 = map2 (\<lambda>r v. r\<lparr>prev_orders := v\<rparr>) r1 (shift1 (map (\<lambda>r. Fin (real (orders r))) r1));
         r3 = map2 (\<lambda>r v. r\<lparr>prev_aov := v\<rparr>) r2 (shift1 (map aov r2));
         r4 = map2 (\<lambda>r v. r\<lparr>revenue_change := v\<rparr>) r3 (map (\<lambda>r. fl_sub (Fin (m_revenue r)) (prev_revenue r)) r3);
         r5 = map2 (\<lambda>r v. r\<lparr>orders_effect := v\<rparr>) r4 (map (\<lambda>r. fl_mul (fl_sub (Fin (real (orders r))) (prev_orders r)) (prev_aov r)) r4);
         r6 = map2 (\<lambda>r v. r\<lparr>aov_effect := v\<rparr>) r5 (map (\<lambda>r. fl_mul (fl_sub (aov r) (prev_aov r)) (Fin (real (orders r)))) r5)
     in r6)"

text \<open>\<open>sep.join(xs)\<close> of Python.\<close>

fun join :: "string \<Rightarrow> string list \<Rightarrow> string" where
  "join sep [] = []"
| "join sep [x] = x"
| "join sep (x # y # ys) = x @ sep @ join sep (y # ys)"

definition interpret_revenue_change :: "monthly_row \<Rightarrow> string" where
  "interpret_revenue_change row =
     (let messages = [];
          messages = messages @
            [if fl_gt (orders_effect row) (Fin 0)
             then ''Increase driven by higher order volume''
             else ''Decrease driven by lower order volume''];
          messages = messages @
            [if fl_gt (aov_effect row) (Fin 0)
             then ''Higher average order value helped''
             else ''Lower average order value impacted revenue'']
      in join '' & '' messages)"

section \<open>Scenario simulator (core/scenario.py)\<close>

text \<open>
  A Python value of a scenario: a number or a string (a label).  A dict is a map from
  its keys.
\<close>

datatype pyval = Num fl | Str string

type_synonym pydict = "string \<rightharpoonup> pyval"

text \<open>\<open>d.get(k, dflt)\<close> of Python.\<close>

definition dict_get :: "pydict \<Rightarrow> string \<Rightarrow> pyval \<Rightarrow> pyval" where
  "dict_get d k dflt = (case d k of None \<Rightarrow> dflt | Some v \<Rightarrow> v)"

text \<open>
  Arithmetic on a string raises TypeError.  The three divisions by the literal \<open>100\<close>
  never divide by zero; the division by \<open>baseline_revenue\<close> may.
\<close>

definition simulate_scenario ::
  "bool \<Rightarrow> pyval \<Rightarrow> pyval \<Rightarrow> pyval \<Rightarrow> pyval \<Rightarrow> error + pydict" where
  "simulate_scenario np baseline_revenue price_change_pct volume_change_pct discount_pct =
     (case (baseline_revenue, price_change_pct, volume_change_pct, discount_pct) of
        (Num b, Num p, Num v, Num d) \<Rightarrow>
          (let price_factor = fl_add (Fin 1) (fl_div p (Fin 100));
               volume_factor = fl_add (Fin 1) (fl_div v (Fin 100));
               discount_factor = fl_sub (Fin 1) (fl_div d (Fin 100));
               simulated_revenue =
                 fl_mul (fl_mul (fl_mul b price_factor) volume_factor) discount_factor;
               delta = fl_sub simulated_revenue b
           in case truediv np delta b of
                Inl e \<Rightarrow> Inl e
              | Inr q \<Rightarrow>
                  Inr [''simulated_revenue'' \<mapsto> Num simulated_revenue,
                       ''absolute_change'' \<mapsto> Num delta,
                       ''percentage_change'' \<mapsto> Num (fl_mul q (Fin 100))])
      | _ \<Rightarrow> Inl TypeError)"

text \<open>
  The loop over \<open>scenarios\<close>; an exception of \<open>simulate_scenario\<close> ends the call.
  \<open>outcome.update(s)\<close> is \<open>outcome ++ s\<close>.  The result is the list of the rows of the
  returned DataFrame (which shows a key that a row lacks as NaN).
\<close>

fun batch_simulation :: "bool \<Rightarrow> pyval \<Rightarrow> pydict list \<Rightarrow> error + pydict list" where
  "batch_simulation np baseline_revenue [] = Inr []"
| "batch_simulation np baseline_revenue (s # scenarios) =
     (case simulate_scenario np baseline_revenue
             (dict_get s ''price_change'' (Num (Fin 0)))
             (dict_get s ''volume_change'' (Num (Fin 0)))
             (dict_get s ''discount'' (Num (Fin 0))) of
        Inl e \<Rightarrow> Inl e
      | Inr outcome \<Rightarrow>
          (case batch_simulation np baseline_revenue scenarios of
             Inl e \<Rightarrow> Inl e
           | Inr results \<Rightarrow> Inr ((outcome ++ s) # results)))"

section \<open>Validator: business rules and outliers (core/validation.py)\<close>

text \<open>\<open>df[mask]\<close>: a new frame with the rows that satisfy the mask, in their order.\<close>

definition df_filter :: "(sales_row \<Rightarrow> bool) \<Rightarrow> frame \<Rightarrow> frame" where
  "df_filter p df = \<lparr>columns = columns df, rows = filter p (rows df)\<rparr>"

record issues =
  invalid_quantity :: frame
  invalid_price :: frame
  revenue_mismatch :: frame

definition validate_business_rules :: "frame \<Rightarrow> error + issues" where
  "validate_business_rules df =
     (if \<not> has_col df ''quantity'' then Inl (KeyError ''quantity'')
      else if \<not> has_col df ''unit_price'' then Inl (KeyError ''unit_price'')
      else if \<not> has_col df ''revenue'' then Inl (KeyError ''revenue'')
      else Inr \<lparr>invalid_quantity = df_filter (\<lambda>r. quantity r \<le> 0) df,
                invalid_price = df_filter (\<lambda>r. unit_price r \<le> 0) df,
                revenue_mismatch =
                  df_filter (\<lambda>r. \<bar>revenue r - real_of_int (quantity r) * unit_price r\<bar> > 1.0) df\<rparr>)"

text \<open>
  \<open>Series.quantile(q)\<close>, linear interpolation: on the sorted values the position is
  \<open>q * (n - 1)\<close>, and the result lies between the values at the two neighbouring
  indices.  The quantile of an empty column is NaN.
\<close>

definition quantile :: "real list \<Rightarrow> real \<Rightarrow> fl" where
  "quantile xs q =
     (if xs = [] then NaN
      else let s = sort xs;
               n = length s;
               pos = q * real (n - 1);
               lo = nat \<lfloor>pos\<rfloor>;
               hi = min (lo + 1) (n - 1)
           in Fin (s ! lo + (pos - real lo) * (s ! hi - s ! lo)))"

definition detect_revenue_outliers :: "frame \<Rightarrow> error + frame" where
  "detect_revenue_outliers df =
     (if \<not> has_col df ''revenue'' then Inl (KeyError ''revenue'')
      else let q1 = quantile (map revenue (rows df)) 0.25;
               q3 = quantile (map revenue (rows df)) 0.75;
               iqr = fl_sub q3 q1;
               lower = fl_sub q1 (fl_mul (Fin 1.5) iqr);
               upper = fl_add q3 (fl_mul (Fin 1.5) iqr)
           in Inr (df_filter (\<lambda>r. fl_lt (Fin (revenue r)) lower \<or> fl_gt (Fin (revenue r)) upper)
                     df))"

text \<open>For the proofs: the interpolated value at a position of a sorted list.\<close>

definition interp :: "real list \<Rightarrow> real \<Rightarrow> real" where
  "interp s pos = (let lo = nat \<lfloor>pos\<rfloor>; hi = min (lo + 1) (length s - 1)
                   in s ! lo + (pos - real lo) * (s ! hi - s ! lo))"

section \<open>Pareto engine (core/pareto.py)\<close>

record pareto_row =
  p_key :: string
  p_revenue :: real
  revenue_share :: fl
  cumulative_share :: fl
  pareto_flag :: bool

definition fl_le :: "fl \<Rightarrow> fl \<Rightarrow> bool" where
  "fl_le x y = (fl_lt x y \<or> (x = y \<and> x \<noteq> NaN))"

text \<open>
  \<open>Series.cumsum()\<close>: the running sum; a NaN entry stays NaN in the result and is left
  out of the running sum.
\<close>

fun cumsum :: "fl \<Rightarrow> fl list \<Rightarrow> fl list" where
  "cumsum acc [] = []"
| "cumsum acc (x # xs) =
     (if isna x then NaN # cumsum acc xs
      else fl_add acc x # cumsum (fl_add acc x) xs)"

text \<open>
  \<open>pareto_products\<close> and \<open>pareto_categories\<close> are the same code but for the grouping
  column: \<open>pareto_by\<close> is that code, with the column \<open>col\<close> read by \<open>key\<close>.  Rows of
  equal revenue come out of \<open>sort_values\<close> in an order pandas does not promise; here
  they keep the order of their labels.
\<close>

definition pareto_by ::
  "(sales_row \<Rightarrow> string) \<Rightarrow> string \<Rightarrow> frame \<Rightarrow> real \<Rightarrow> error + pareto_row list" where
  "pareto_by key col df threshold =
     (if \<not> has_col df col then Inl (KeyError col)
      else if \<not> has_col df ''revenue'' then Inl (KeyError ''revenue'')
      else
        let grouped = map (\<lambda>k. (k, sum_list (map revenue (group_rows key k (rows df)))))
                        (group_keys key (rows df));
            product_rev = sort_key (\<lambda>g. - snd g) grouped;
            total_revenue = sum_list (map snd product_rev);
            shares = map (\<lambda>g. fl_div (Fin (snd g)) (Fin total_revenue)) product_rev;
            cums = cumsum (Fin 0) shares
        in Inr (map (\<lambda>(g, s, c).
                  \<lparr>p_key = fst g, p_revenue = snd g, revenue_share = s,
                   cumulative_share = c, pareto_flag = fl_le c (Fin threshold)\<rparr>)
                (zip product_rev (zip shares cums))))"




section \<open>Scenario baseline (core/scenario.py)\<close>

record baseline =
  total_revenue :: real
  total_quantity :: int
  avg_price :: fl

definition mean :: "real list \<Rightarrow> fl" where
  "mean xs = (if xs = [] then NaN else Fin (sum_list xs / real (length xs)))"

definition baseline_metrics :: "frame \<Rightarrow> error + baseline" where
  "baseline_metrics df =
     (if \<not> has_col df ''revenue'' then Inl (KeyError ''revenue'')
      else if \<not> has_col df ''quantity'' then Inl (KeyError ''quantity'')
      else if \<not> has_col df ''unit_price'' then Inl (KeyError ''unit_price'')
      else Inr \<lparr>total_revenue = sum_list (map revenue (rows df)),
                total_quantity = sum_list (map quantity (rows df)),
                avg_price = mean (map unit_price (rows df))\<rparr>)"

section \<open>Forecaster (core/forecasting.py)\<close>

record series_row =
  s_order_month :: date
  s_revenue :: real
  month :: nat
  year :: int
  trend :: int

text \<open>
  \<open>prepare_monthly_series\<close>, lines 8 to 22.  The column \<open>order_month\<close> of the private
  copy holds the first day of the month of each order; \<open>np.arange\<close> numbers the months
  from zero.
\<close>

definition prepare_monthly_series ::
  "frame list \<Rightarrow> nat \<Rightarrow> frame list \<times> (error + series_row list)" where
  "prepare_monthly_series st df0 =
     (let (df, st) = df_copy st df0 in
      if \<not> has_col (st ! df) ''order_date'' then (st, Inl (KeyError ''order_date''))
      else
        let st = st[df := setitem_order_month (st ! df)
                            (map (\<lambda>r. to_period (order_date r)) (rows (st ! df)))] in
        if \<not> has_col (st ! df) ''revenue'' then (st, Inl (KeyError ''revenue''))
        else
          let monthly =
                sort_key fst
                  (map (\<lambda>k. (k, sum_list (map revenue (group_rows order_month k (rows (st ! df))))))
                     (group_keys order_month (rows (st ! df))))
          in (st, Inr (map (\<lambda>(i, g).
                         \<lparr>s_order_month = to_timestamp (fst g), s_revenue = snd g,
                          month = snd (fst g), year = fst (fst g), trend = int i\<rparr>)
                       (enumerate 0 monthly))))"

definition is_leap :: "int \<Rightarrow> bool" where
  "is_leap y = (y mod 4 = 0 \<and> (y mod 100 \<noteq> 0 \<or> y mod 400 = 0))"

definition days_in_month :: "int \<Rightarrow> nat \<Rightarrow> nat" where
  "days_in_month y m =
     (if m = 2 then (if is_leap y then 29 else 28)
      else if m = 4 \<or> m = 6 \<or> m = 9 \<or> m = 11 then 30 else 31)"

text \<open>
  \<open>d + pd.DateOffset(months=i)\<close>: the month moves by \<open>i\<close>, the year follows, and the day
  is cut to the length of the new month.
\<close>

definition add_months :: "date \<Rightarrow> int \<Rightarrow> date" where
  "add_months d i =
     (let idx = int (date_month d) - 1 + i;
          y = date_year d + idx div 12;
          m = nat (idx mod 12) + 1
      in (y, m, min (date_day d) (days_in_month y m)))"

record future_row =
  f_order_month :: date
  f_month :: nat
  f_year :: int
  f_trend :: int
  forecast_revenue :: real

text \<open>
  \<open>forecast_future\<close>, lines 41 to 61.  The fitted model is opaque: \<open>predict\<close> gives its
  prediction for one feature row (month, year, trend).  With \<open>periods < 1\<close> the loop
  adds no row, the DataFrame of an empty list has no column, and the selection of the
  three feature columns raises KeyError.  On an empty series the maxima are NaT and NaN;
  what the model does with such features is outside this model, which gives ValueError.
\<close>

definition forecast_future ::
  "(nat \<times> int \<times> int \<Rightarrow> real) \<Rightarrow> series_row list \<Rightarrow> int \<Rightarrow> error + future_row list" where
  "forecast_future predict last_monthly_df periods =
     (if last_monthly_df = [] then Inl ValueError
      else
        let last_date = Max (set (map s_order_month last_monthly_df));
            last_trend = Max (set (map trend last_monthly_df));
            future = map (\<lambda>i. let future_date = add_months last_date i
                               in (future_date, date_month future_date,
                                   date_year future_date, last_trend + i))
                       [1..periods]
        in if future = [] then Inl (KeyError ''month'')
           else Inr (map (\<lambda>(d, m, y, t).
                       \<lparr>f_order_month = d, f_month = m, f_year = y, f_trend = t,
                        forecast_revenue = predict (m, y, t)\<rparr>)
                     future))"

section \<open>Validator, pareto engine and baseline over the store\<close>

text \<open>
  The same functions with their argument a reference and the store explicit, statement
  by statement.  A selection \<open>df[mask]\<close> and the result of a grouping are new DataFrame
  objects, allocated at the end of the store; a column assignment writes to the object
  its left side refers to.
\<close>

definition alloc :: "'f list \<Rightarrow> 'f \<Rightarrow> nat \<times> 'f list" where
  "alloc st x = (length st, st @ [x])"

text \<open>\<open>validate_schema\<close> reads \<open>df.columns\<close>; \<open>r\<close> is a store and a list it may return.\<close>

definition validate_schema_st :: "frame list \<Rightarrow> nat \<Rightarrow> frame list \<times> string list \<Rightarrow> bool" where
  "validate_schema_st st df r = (fst r = st \<and> validate_schema (st ! df) (snd r))"

record issue_refs =
  ref_invalid_quantity :: nat
  ref_invalid_price :: nat
  ref_revenue_mismatch :: nat

definition validate_business_rules_st ::
  "frame list \<Rightarrow> nat \<Rightarrow> frame list \<times> (error + issue_refs)" where
  "validate_business_rules_st st df =
     (if \<not> has_col (st ! df) ''quantity'' then (st, Inl (KeyError ''quantity''))
      else
        let (iq, st) = alloc st (df_filter (\<lambda>r. quantity r \<le> 0) (st ! df)) in
        if \<not> has_col (st ! df) ''unit_price'' then (st, Inl (KeyError ''unit_price''))
        else
          let (ip, st) = alloc st (df_filter (\<lambda>r. unit_price r \<le> 0) (st ! df)) in
          if \<not> has_col (st ! df) ''revenue'' then (st, Inl (KeyError ''revenue''))
          else
            let (rm, st) =
                  alloc st (df_filter
                    (\<lambda>r. \<bar>revenue r - real_of_int (quantity r) * unit_price r\<bar> > 1.0)
                    (st ! df))
            in (st, Inr \<lparr>ref_invalid_quantity = iq, ref_invalid_price = ip,
                          ref_revenue_mismatch = rm\<rparr>))"

definition detect_revenue_outliers_st :: "frame list \<Rightarrow> nat \<Rightarrow> frame list \<times> (error + nat)" where
  "detect_revenue_outliers_st st df =
     (if \<not> has_col (st ! df) ''revenue'' then (st, Inl (KeyError ''revenue''))
      else let q1 = quantile (map revenue (rows (st ! df))) 0.25;
               q3 = quantile (map revenue (rows (st ! df))) 0.75;
               iqr = fl_sub q3 q1;
               lower = fl_sub q1 (fl_mul (Fin 1.5) iqr);
               upper = fl_add q3 (fl_mul (Fin 1.5) iqr);
               (out, st) = alloc st
                 (df_filter (\<lambda>r. fl_lt (Fin (revenue r)) lower \<or> fl_gt (Fin (revenue r)) upper)
                    (st ! df))
           in (st, Inr out))"

record report_refs =
  missing_columns :: "string list"
  business_rule_issues :: issue_refs
  outliers :: nat

text \<open>
  \<open>run_full_validation\<close>, lines 44 to 50; \<open>missing\<close> is the list that the call of
  \<open>validate_schema\<close> returned.  An exception of a check ends the call.
\<close>

definition run_full_validation ::
  "frame list \<Rightarrow> nat \<Rightarrow> string list \<Rightarrow> frame list \<times> (error + report_refs)" where
  "run_full_validation st df missing =
     (case validate_business_rules_st st df of
        (st, Inl e) \<Rightarrow> (st, Inl e)
      | (st, Inr issues) \<Rightarrow>
          (case detect_revenue_outliers_st st df of
             (st, Inl e) \<Rightarrow> (st, Inl e)
           | (st, Inr out) \<Rightarrow>
               (st, Inr \<lparr>missing_columns = missing, business_rule_issues = issues,
                         outliers = out\<rparr>)))"

definition baseline_metrics_st :: "frame list \<Rightarrow> nat \<Rightarrow> frame list \<times> (error + baseline)" where
  "baseline_metrics_st st df =
     (if \<not> has_col (st ! df) ''revenue'' then (st, Inl (KeyError ''revenue''))
      else if \<not> has_col (st ! df) ''quantity'' then (st, Inl (KeyError ''quantity''))
      else if \<not> has_col (st ! df) ''unit_price'' then (st, Inl (KeyError ''unit_price''))
      else (st, Inr \<lparr>total_revenue = sum_list (map revenue (rows (st ! df))),
                      total_quantity = sum_list (map quantity (rows (st ! df))),
                      avg_price = mean (map unit_price (rows (st ! df)))\<rparr>))"

text \<open>
  A pareto table is an object of its own kind: the store of the pareto functions holds
  the sales frames and the pareto tables.  The grouped, sorted table \<open>product_rev\<close> is
  allocated with the label and revenue columns; the three assignments of lines 15 to 18
  add its other columns.
\<close>

record pareto_frame =
  pcolumns :: "string list"
  prows :: "pareto_row list"

record store =
  frames :: "frame list"
  tables :: "pareto_frame list"

definition psetitem ::
  "string \<Rightarrow> (pareto_row \<Rightarrow> 'v \<Rightarrow> pareto_row) \<Rightarrow> pareto_frame \<Rightarrow> 'v list \<Rightarrow> pareto_frame" where
  "psetitem c upd t vals =
     \<lparr>pcolumns = (if c \<in> set (pcolumns t) then pcolumns t else pcolumns t @ [c]),
      prows = map2 upd (prows t) vals\<rparr>"

definition pareto_by_st ::
  "(sales_row \<Rightarrow> string) \<Rightarrow> string \<Rightarrow> store \<Rightarrow> nat \<Rightarrow> real \<Rightarrow> store \<times> (error + nat)" where
  "pareto_by_st key col S df threshold =
     (if \<not> has_col (frames S ! df) col then (S, Inl (KeyError col))
      else if \<not> has_col (frames S ! df) ''revenue'' then (S, Inl (KeyError ''revenue''))
      else
        let grouped = map (\<lambda>k. (k, sum_list (map revenue
                                    (group_rows key k (rows (frames S ! df))))))
                        (group_keys key (rows (frames S ! df)));
            product_rev = length (tables S);
            S = S\<lparr>tables := tables S @
                  [\<lparr>pcolumns = [col, ''revenue''],
                    prows = map (\<lambda>g. \<lparr>p_key = fst g, p_revenue = snd g, revenue_share = NaN,
                                        cumulative_share = NaN, pareto_flag = False\<rparr>)
                              (sort_key (\<lambda>g. - snd g) grouped)\<rparr>]\<rparr>;
            total_revenue = sum_list (map p_revenue (prows (tables S ! product_rev)));
            S = S\<lparr>tables := (tables S)[product_rev :=
                  psetitem ''revenue_share'' (\<lambda>r v. r\<lparr>revenue_share := v\<rparr>)
                    (tables S ! product_rev)
                    (map (\<lambda>r. fl_div (Fin (p_revenue r)) (Fin total_revenue))
                       (prows (tables S ! product_rev)))]\<rparr>;
            S = S\<lparr>tables := (tables S)[product_rev :=
                  psetitem ''cumulative_share'' (\<lambda>r v. r\<lparr>cumulative_share := v\<rparr>)
                    (tables S ! product_rev)
                    (cumsum (Fin 0) (map revenue_share (prows (tables S ! product_rev))))]\<rparr>;
            S = S\<lparr>tables := (tables S)[product_rev :=
                  psetitem ''pareto_flag'' (\<lambda>r v. r\<lparr>pareto_flag := v\<rparr>)
                    (tables S ! product_rev)
                    (map (\<lambda>r. fl_le (cumulative_share r) (Fin threshold))
                       (prows (tables S ! product_rev)))]\<rparr>
        in (S, Inr product_rev))"

definition pareto_products_st :: "store \<Rightarrow> nat \<Rightarrow> real \<Rightarrow> store \<times> (error + nat)" where
  "pareto_products_st S df threshold = pareto_by_st product_name ''product_name'' S df threshold"

definition pareto_categories_st :: "store \<Rightarrow> nat \<Rightarrow> real \<Rightarrow> store \<times> (error + nat)" where
  "pareto_categories_st S df threshold = pareto_by_st category ''category'' S df threshold"

section \<open>Sums in float64\<close>

text \<open>
  The model above adds exactly; the code adds float64 numbers, and each addition
  rounds.  \<open>round64\<close> rounds a real to the nearest float64 (a significand of 53 bits,
  ties to the even significand); overflow and subnormal numbers are left out.
  \<open>bexp n x\<close> is the binary exponent of a positive \<open>x\<close>, found in at most \<open>n\<close> steps.
\<close>

fun bexp :: "nat \<Rightarrow> real \<Rightarrow> int" where
  "bexp 0 x = 0"
| "bexp (Suc n) x =
     (if 2 \<le> x then bexp n (x / 2) + 1 else if x < 1 then bexp n (2 * x) - 1 else 0)"

definition round_even :: "real \<Rightarrow> int" where
  "round_even x =
     (let f = \<lfloor>x\<rfloor>; d = x - of_int f
      in if d < 1 / 2 then f else if 1 / 2 < d then f + 1 else if even f then f else f + 1)"

definition ulp :: "int \<Rightarrow> real" where
  "ulp e = (if 52 \<le> e then 2 ^ nat (e - 52) else 1 / 2 ^ nat (52 - e))"

definition round64 :: "real \<Rightarrow> real" where
  "round64 x =
     (if x = 0 then 0
      else let u = ulp (bexp 2200 \<bar>x\<bar>)
           in sgn x * of_int (round_even (\<bar>x\<bar> / u)) * u)"

definition add64 :: "real \<Rightarrow> real \<Rightarrow> real" where
  "add64 x y = round64 (x + y)"

definition sub64 :: "real \<Rightarrow> real \<Rightarrow> real" where
  "sub64 x y = round64 (x - y)"

text \<open>
  \<open>Series.sum()\<close> of a column of fewer than eight values, and Python's \<open>sum\<close> over a
  column: the values are added from left to right, starting from zero.
\<close>

definition sum64 :: "real list \<Rightarrow> real" where
  "sum64 xs = foldl add64 0 xs"



section \<open>Theorems\<close>

lemma validate_schema_total: "\<exists>out. validate_schema df out"
proof -
  have "finite (missing_cols df)"
    by (simp add: missing_cols_def)
  then obtain out where "set out = missing_cols df" "distinct out"
    using finite_distinct_list by blast
  then show ?thesis
    by (auto simp: validate_schema_def)
qed

lemma distinct_singleton_set: "distinct xs \<Longrightarrow> set xs = {x} \<Longrightarrow> xs = [x]"
proof (cases xs)
  case Nil
  assume "set xs = {x}"
  with Nil show ?thesis by simp
next
  case (Cons y ys)
  assume d: "distinct xs" and s: "set xs = {x}"
  from Cons s have y: "y = x" by auto
  from Cons d have n: "y \<notin> set ys" by simp
  have "ys = []"
  proof (cases ys)
    case Nil
    then show ?thesis .
  next
    case (Cons z zs)
    with \<open>xs = y # ys\<close> s have "z = x" by auto
    with Cons n y show ?thesis by simp
  qed
  then show ?thesis using Cons y by simp
qed

text \<open>
  C7.  \<open>validate_schema\<close> always returns, and what it returns is an enumeration without
  repetition of exactly the required column names (the eight of the schema) that are
  not columns of the dataset, in an unspecified order.  On a dataset that has the seven
  other required columns and lacks \<open>revenue\<close>, the only possible result is the list
  holding \<open>revenue\<close> alone.
\<close>

theorem validate_schema_set_difference:
  "(\<exists>out. validate_schema df out) \<and>
   (\<forall>out. validate_schema df out \<longrightarrow>
      distinct out \<and>
      set out =
        {''order_id'', ''order_date'', ''product_name'', ''category'', ''region'',
         ''quantity'', ''unit_price'', ''revenue''} - set (columns df)) \<and>
   (''revenue'' \<notin> set (columns df) \<and>
    {''order_id'', ''order_date'', ''product_name'', ''category'', ''region'',
     ''quantity'', ''unit_price''} \<subseteq> set (columns df) \<longrightarrow>
      (\<forall>out. validate_schema df out \<longleftrightarrow> out = [''revenue'']))"
proof (intro conjI allI impI)
  show "\<exists>out. validate_schema df out"
    by (rule validate_schema_total)
next
  fix out assume "validate_schema df out"
  then show "distinct out"
    by (simp add: validate_schema_def)
next
  fix out assume "validate_schema df out"
  then show "set out =
        {''order_id'', ''order_date'', ''product_name'', ''category'', ''region'',
         ''quantity'', ''unit_price'', ''revenue''} - set (columns df)"
    by (simp add: validate_schema_def missing_cols_def REQUIRED_COLUMNS_def)
next
  fix out
  assume h: "''revenue'' \<notin> set (columns df) \<and>
    {''order_id'', ''order_date'', ''product_name'', ''category'', ''region'',
     ''quantity'', ''unit_price''} \<subseteq> set (columns df)"
  then have m: "missing_cols df = {''revenue''}"
    by (auto simp: missing_cols_def REQUIRED_COLUMNS_def)
  show "validate_schema df out \<longleftrightarrow> out = [''revenue'']"
  proof
    assume "validate_schema df out"
    then show "out = [''revenue'']"
      using m distinct_singleton_set [of out "''revenue''"] by (simp add: validate_schema_def)
  next
    assume "out = [''revenue'']"
    then show "validate_schema df out"
      using m by (simp add: validate_schema_def)
  qed
qed

theorem validate_schema_set_difference_witness:
  "validate_schema
     \<lparr>columns = [''order_id'', ''order_date'', ''product_name'', ''category'', ''region'',
                 ''quantity'', ''unit_price'', ''channel''],
      rows = []\<rparr> [''revenue'']"
  using validate_schema_set_difference
    [of "\<lparr>columns = [''order_id'', ''order_date'', ''product_name'', ''category'',
                     ''region'', ''quantity'', ''unit_price'', ''channel''],
          rows = []\<rparr>"]
  by simp

subsection \<open>Scenario simulator\<close>

text \<open>
  C2 as stated fails at a zero baseline: the percentage divides by the baseline, so
  built-in numbers raise ZeroDivisionError and numpy scalars give NaN.
\<close>

theorem simulate_scenario_zero_baseline:
  "simulate_scenario False (Num (Fin 0)) (Num (Fin 0)) (Num (Fin 0)) (Num (Fin 0))
     = Inl ZeroDivisionError \<and>
   simulate_scenario True (Num (Fin 0)) (Num (Fin 0)) (Num (Fin 0)) (Num (Fin 0))
     = Inr [''simulated_revenue'' \<mapsto> Num (Fin 0), ''absolute_change'' \<mapsto> Num (Fin 0),
            ''percentage_change'' \<mapsto> Num NaN] \<and>
   Num NaN \<noteq> Num (Fin 0)"
  by (simp add: simulate_scenario_def truediv_def fl_sub_def signed_inf_def Let_def)

text \<open>
  C2, amended.  For every finite baseline \<open>R\<close> other than zero,
  \<open>simulate_scenario(R, 0, 0, 0)\<close> returns simulated_revenue \<open>R\<close>, absolute_change \<open>0\<close>
  and percentage_change \<open>0\<close>, for built-in numbers and numpy scalars alike.
\<close>

theorem simulate_scenario_identity:
  "R \<noteq> 0 \<Longrightarrow>
   simulate_scenario np (Num (Fin R)) (Num (Fin 0)) (Num (Fin 0)) (Num (Fin 0))
     = Inr [''simulated_revenue'' \<mapsto> Num (Fin R), ''absolute_change'' \<mapsto> Num (Fin 0),
            ''percentage_change'' \<mapsto> Num (Fin 0)]"
  by (simp add: simulate_scenario_def truediv_def fl_sub_def Let_def)

theorem simulate_scenario_identity_witness:
  "simulate_scenario False (Num (Fin 2500)) (Num (Fin 0)) (Num (Fin 0)) (Num (Fin 0))
     = Inr [''simulated_revenue'' \<mapsto> Num (Fin 2500), ''absolute_change'' \<mapsto> Num (Fin 0),
            ''percentage_change'' \<mapsto> Num (Fin 0)]"
  using simulate_scenario_identity [of 2500 False] by simp

lemma simulate_scenario_dom:
  "simulate_scenario np b p v d = Inr outcome \<Longrightarrow>
   dom outcome = {''simulated_revenue'', ''absolute_change'', ''percentage_change''}"
  by (auto simp: simulate_scenario_def Let_def
      split: pyval.splits sum.splits if_splits)

lemma batch_simulation_rows:
  "batch_simulation np b scenarios = Inr results \<Longrightarrow>
   length results = length scenarios \<and>
   (\<forall>i<length scenarios. \<exists>outcome.
      simulate_scenario np b
        (dict_get (scenarios ! i) ''price_change'' (Num (Fin 0)))
        (dict_get (scenarios ! i) ''volume_change'' (Num (Fin 0)))
        (dict_get (scenarios ! i) ''discount'' (Num (Fin 0))) = Inr outcome \<and>
      results ! i = outcome ++ (scenarios ! i))"
proof (induction scenarios arbitrary: results)
  case Nil
  then show ?case by simp
next
  case (Cons s scenarios)
  from Cons.prems obtain outcome rest where
    o: "simulate_scenario np b
          (dict_get s ''price_change'' (Num (Fin 0)))
          (dict_get s ''volume_change'' (Num (Fin 0)))
          (dict_get s ''discount'' (Num (Fin 0))) = Inr outcome"
    and r: "batch_simulation np b scenarios = Inr rest"
    and res: "results = (outcome ++ s) # rest"
    by (auto split: sum.splits)
  from Cons.IH [OF r] have len: "length rest = length scenarios"
    and ih: "\<forall>i<length scenarios. \<exists>outcome.
      simulate_scenario np b
        (dict_get (scenarios ! i) ''price_change'' (Num (Fin 0)))
        (dict_get (scenarios ! i) ''volume_change'' (Num (Fin 0)))
        (dict_get (scenarios ! i) ''discount'' (Num (Fin 0))) = Inr outcome \<and>
      rest ! i = outcome ++ (scenarios ! i)"
    by simp_all
  show ?case
  proof (intro conjI allI impI)
    show "length results = length (s # scenarios)"
      using res len by simp
  next
    fix i assume "i < length (s # scenarios)"
    then show "\<exists>outcome.
      simulate_scenario np b
        (dict_get ((s # scenarios) ! i) ''price_change'' (Num (Fin 0)))
        (dict_get ((s # scenarios) ! i) ''volume_change'' (Num (Fin 0)))
        (dict_get ((s # scenarios) ! i) ''discount'' (Num (Fin 0))) = Inr outcome \<and>
      results ! i = outcome ++ ((s # scenarios) ! i)"
      using o ih res by (cases i) auto
  qed
qed

text \<open>
  C10.  When \<open>batch_simulation\<close> returns, it returns one row per scenario, in order; the
  row of a scenario holds every key and value of the scenario itself, and the computed
  value of \<open>simulate_scenario\<close> for each of simulated_revenue, absolute_change and
  percentage_change that the scenario does not have as a key.  So a scenario whose keys
  avoid those three gets the three computed results and its own parameters, and a
  scenario that has one of them as a key overwrites the computed value.
\<close>

theorem batch_simulation_merge:
  "batch_simulation np b scenarios = Inr results \<Longrightarrow>
   length results = length scenarios \<and>
   (\<forall>i<length scenarios. \<exists>outcome.
      simulate_scenario np b
        (dict_get (scenarios ! i) ''price_change'' (Num (Fin 0)))
        (dict_get (scenarios ! i) ''volume_change'' (Num (Fin 0)))
        (dict_get (scenarios ! i) ''discount'' (Num (Fin 0))) = Inr outcome \<and>
      dom outcome = {''simulated_revenue'', ''absolute_change'', ''percentage_change''} \<and>
      (\<forall>k\<in>dom (scenarios ! i). (results ! i) k = (scenarios ! i) k) \<and>
      (\<forall>k. k \<notin> dom (scenarios ! i) \<longrightarrow> (results ! i) k = outcome k))"
proof (intro conjI allI impI)
  assume h: "batch_simulation np b scenarios = Inr results"
  from batch_simulation_rows [OF h] show "length results = length scenarios"
    by simp
next
  fix i
  assume h: "batch_simulation np b scenarios = Inr results" and i: "i < length scenarios"
  from batch_simulation_rows [OF h] i obtain outcome where
    o: "simulate_scenario np b
        (dict_get (scenarios ! i) ''price_change'' (Num (Fin 0)))
        (dict_get (scenarios ! i) ''volume_change'' (Num (Fin 0)))
        (dict_get (scenarios ! i) ''discount'' (Num (Fin 0))) = Inr outcome"
    and r: "results ! i = outcome ++ (scenarios ! i)"
    by blast
  have "(\<forall>k\<in>dom (scenarios ! i). (results ! i) k = (scenarios ! i) k) \<and>
      (\<forall>k. k \<notin> dom (scenarios ! i) \<longrightarrow> (results ! i) k = outcome k)"
    using r by (auto simp: map_add_def split: option.splits)
  with o simulate_scenario_dom [OF o]
  show "\<exists>outcome.
      simulate_scenario np b
        (dict_get (scenarios ! i) ''price_change'' (Num (Fin 0)))
        (dict_get (scenarios ! i) ''volume_change'' (Num (Fin 0)))
        (dict_get (scenarios ! i) ''discount'' (Num (Fin 0))) = Inr outcome \<and>
      dom outcome = {''simulated_revenue'', ''absolute_change'', ''percentage_change''} \<and>
      (\<forall>k\<in>dom (scenarios ! i). (results ! i) k = (scenarios ! i) k) \<and>
      (\<forall>k. k \<notin> dom (scenarios ! i) \<longrightarrow> (results ! i) k = outcome k)"
    by blast
qed

theorem batch_simulation_merge_witness:
  "batch_simulation False (Num (Fin 1000))
     [[''price_change'' \<mapsto> Num (Fin 10), ''name'' \<mapsto> Str ''promo''],
      [''discount'' \<mapsto> Num (Fin 50), ''simulated_revenue'' \<mapsto> Num (Fin 1)]]
   = Inr [[''simulated_revenue'' \<mapsto> Num (Fin 1100), ''absolute_change'' \<mapsto> Num (Fin 100),
           ''percentage_change'' \<mapsto> Num (Fin 10)] ++
          [''price_change'' \<mapsto> Num (Fin 10), ''name'' \<mapsto> Str ''promo''],
          [''simulated_revenue'' \<mapsto> Num (Fin 500), ''absolute_change'' \<mapsto> Num (Fin (- 500)),
           ''percentage_change'' \<mapsto> Num (Fin (- 50))] ++
          [''discount'' \<mapsto> Num (Fin 50), ''simulated_revenue'' \<mapsto> Num (Fin 1)]] \<and>
   ([''simulated_revenue'' \<mapsto> Num (Fin 500), ''absolute_change'' \<mapsto> Num (Fin (- 500)),
           ''percentage_change'' \<mapsto> Num (Fin (- 50))] ++
          [''discount'' \<mapsto> Num (Fin 50), ''simulated_revenue'' \<mapsto> Num (Fin 1)])
      ''simulated_revenue'' = Some (Num (Fin 1))"
proof -
  have h: "batch_simulation False (Num (Fin 1000))
     [[''price_change'' \<mapsto> Num (Fin 10), ''name'' \<mapsto> Str ''promo''],
      [''discount'' \<mapsto> Num (Fin 50), ''simulated_revenue'' \<mapsto> Num (Fin 1)]]
   = Inr [[''simulated_revenue'' \<mapsto> Num (Fin 1100), ''absolute_change'' \<mapsto> Num (Fin 100),
           ''percentage_change'' \<mapsto> Num (Fin 10)] ++
          [''price_change'' \<mapsto> Num (Fin 10), ''name'' \<mapsto> Str ''promo''],
          [''simulated_revenue'' \<mapsto> Num (Fin 500), ''absolute_change'' \<mapsto> Num (Fin (- 500)),
           ''percentage_change'' \<mapsto> Num (Fin (- 50))] ++
          [''discount'' \<mapsto> Num (Fin 50), ''simulated_revenue'' \<mapsto> Num (Fin 1)]]"
    by (simp add: simulate_scenario_def dict_get_def truediv_def fl_sub_def Let_def)
  from batch_simulation_merge [OF h] show ?thesis
    using h by simp
qed

subsection \<open>Interpretation of a decomposition row\<close>

text \<open>
  C8.  The text depends on the row only through \<open>orders_effect\<close> and \<open>aov_effect\<close>: it is
  the phrase chosen by whether \<open>orders_effect > 0\<close>, then \<open>" & "\<close>, then the phrase chosen by
  whether \<open>aov_effect > 0\<close>; an effect of zero takes the decrease (lower) phrase.
\<close>

theorem interpret_revenue_change_signs:
  "interpret_revenue_change row =
     (if fl_gt (orders_effect row) (Fin 0)
      then ''Increase driven by higher order volume''
      else ''Decrease driven by lower order volume'') @ '' & '' @
     (if fl_gt (aov_effect row) (Fin 0)
      then ''Higher average order value helped''
      else ''Lower average order value impacted revenue'') \<and>
   (orders_effect row = orders_effect row' \<and> aov_effect row = aov_effect row' \<longrightarrow>
      interpret_revenue_change row = interpret_revenue_change row') \<and>
   (orders_effect row = Fin 0 \<longrightarrow>
      interpret_revenue_change row =
        ''Decrease driven by lower order volume'' @ '' & '' @
        (if fl_gt (aov_effect row) (Fin 0)
         then ''Higher average order value helped''
         else ''Lower average order value impacted revenue'')) \<and>
   (aov_effect row = Fin 0 \<longrightarrow>
      interpret_revenue_change row =
        (if fl_gt (orders_effect row) (Fin 0)
         then ''Increase driven by higher order volume''
         else ''Decrease driven by lower order volume'') @ '' & '' @
        ''Lower average order value impacted revenue'')"
  by (simp add: interpret_revenue_change_def fl_gt_def)

theorem interpret_revenue_change_signs_witness:
  "interpret_revenue_change
     \<lparr>m_order_month = (2024, 2), m_revenue = 200, orders = 2, aov = Fin 100,
      prev_revenue = Fin 200, prev_orders = Fin 2, prev_aov = Fin 100,
      revenue_change = Fin 0, orders_effect = Fin 0, aov_effect = Fin 0\<rparr>
   = ''Decrease driven by lower order volume & Lower average order value impacted revenue''"
  using interpret_revenue_change_signs
    [of "\<lparr>m_order_month = (2024, 2), m_revenue = 200, orders = 2, aov = Fin 100,
      prev_revenue = Fin 200, prev_orders = Fin 2, prev_aov = Fin 100,
      revenue_change = Fin 0, orders_effect = Fin 0, aov_effect = Fin 0\<rparr>"
        "\<lparr>m_order_month = (2023, 7), m_revenue = 50, orders = 1, aov = Fin 50,
      prev_revenue = Fin 50, prev_orders = Fin 1, prev_aov = Fin 50,
      revenue_change = Fin 0, orders_effect = Fin 0, aov_effect = Fin 0\<rparr>"]
  by (simp add: fl_gt_def)

subsection \<open>KPI engine\<close>

lemma length_shift1: "length (shift1 xs) = length xs"
  by (cases xs rule: rev_cases) (simp_all add: shift1_def)

lemma shift1_nth: "i < length xs \<Longrightarrow> shift1 xs ! i = (if i = 0 then NaN else xs ! (i - 1))"
  by (cases i) (auto simp: shift1_def nth_butlast)

lemma shift1_map_nth:
  "i < length rs \<Longrightarrow> shift1 (map g rs) ! i = prev_val g rs i"
  by (simp add: shift1_nth prev_val_def)

lemma map2_same: "map2 g rs (map f rs) = map (\<lambda>r. g r (f r)) rs"
  by (induction rs) auto

lemma map2_shift1:
  "map2 upd rs (shift1 (map g rs')) = map (\<lambda>i. upd (rs ! i) (prev_val g rs' i)) [0..<length rs]"
  if "length rs' = length rs"
  using that
  by (intro nth_equalityI) (simp_all add: length_shift1 shift1_map_nth)

lemma map_index: "map f rs = map (\<lambda>i. f (rs ! i)) [0..<length rs]"
  by (intro nth_equalityI) simp_all






lemma monthly_kpis_result:
  assumes "a < length st" "has_col (st ! a) ''order_date''" "has_col (st ! a) ''revenue''"
    "has_col (st ! a) ''order_id''"
  shows "snd (monthly_kpis st a) =
     Inr \<lparr>mcolumns = [''order_month'', ''revenue'', ''orders'', ''aov''],
          mrows = map (monthly_agg_row (map (\<lambda>r. r\<lparr>order_month := to_period (order_date r)\<rparr>) (rows (st ! a))))
                    (group_keys order_month (map (\<lambda>r. r\<lparr>order_month := to_period (order_date r)\<rparr>) (rows (st ! a))))\<rparr>"
  using assms
  by (simp add: monthly_kpis_def df_copy_def has_col_def setitem_order_month_def nth_append map2_same)

lemma step_shift:
  assumes "rs = map F [0..<n]" "\<And>i. i < n \<Longrightarrow> g (F i) = g0 i"
  shows "map2 upd rs (shift1 (map g rs)) =
         map (\<lambda>i. upd (F i) (if i = 0 then NaN else g0 (i - 1))) [0..<n]"
  using assms
  by (intro nth_equalityI) (auto simp: length_shift1 shift1_nth)

lemma step_map:
  assumes "rs = map F [0..<n]"
  shows "map2 upd rs (map h rs) = map (\<lambda>i. upd (F i) (h (F i))) [0..<n]"
proof -
  have "map2 upd rs (map h rs) = map (\<lambda>r. upd r (h r)) rs"
    by (rule map2_same)
  also have "\<dots> = map (\<lambda>i. upd (F i) (h (F i))) [0..<n]"
    unfolding assms by (simp add: comp_def)
  finally show ?thesis .
qed

lemma chain6_work: "chain6 r0 = map (work_row r0) [0..<length r0]"
proof -
  define n where "n = length r0"
  have e0: "r0 = map (\<lambda>i. r0 ! i) [0..<n]"
    unfolding n_def by (simp add: map_nth)
  define r1 where "r1 = map2 (\<lambda>r v. r\<lparr>prev_revenue := v\<rparr>) r0 (shift1 (map (\<lambda>r. Fin (m_revenue r)) r0))"
  define r2 where "r2 = map2 (\<lambda>r v. r\<lparr>prev_orders := v\<rparr>) r1 (shift1 (map (\<lambda>r. Fin (real (orders r))) r1))"
  define r3 where "r3 = map2 (\<lambda>r v. r\<lparr>prev_aov := v\<rparr>) r2 (shift1 (map aov r2))"
  define r4 where "r4 = map2 (\<lambda>r v. r\<lparr>revenue_change := v\<rparr>) r3 (map (\<lambda>r. fl_sub (Fin (m_revenue r)) (prev_revenue r)) r3)"
  define r5 where "r5 = map2 (\<lambda>r v. r\<lparr>orders_effect := v\<rparr>) r4 (map (\<lambda>r. fl_mul (fl_sub (Fin (real (orders r))) (prev_orders r)) (prev_aov r)) r4)"
  define r6 where "r6 = map2 (\<lambda>r v. r\<lparr>aov_effect := v\<rparr>) r5 (map (\<lambda>r. fl_mul (fl_sub (aov r) (prev_aov r)) (Fin (real (orders r)))) r5)"
  have c: "chain6 r0 = r6"
    unfolding chain6_def Let_def r6_def r5_def r4_def r3_def r2_def r1_def ..
  have e1: "r1 = map (\<lambda>i. (r0 ! i)\<lparr>prev_revenue := (if i = 0 then NaN else Fin (m_revenue (r0 ! (i - 1))))\<rparr>) [0..<n]"
    unfolding r1_def by (rule step_shift [OF e0]) simp
  have e2: "r2 = map (\<lambda>i. (r0 ! i)\<lparr>prev_revenue := (if i = 0 then NaN else Fin (m_revenue (r0 ! (i - 1)))),
                                   prev_orders := (if i = 0 then NaN else Fin (real (orders (r0 ! (i - 1)))))\<rparr>) [0..<n]"
    unfolding r2_def by (rule step_shift [OF e1]) simp
  have e3: "r3 = map (\<lambda>i. (r0 ! i)\<lparr>prev_revenue := (if i = 0 then NaN else Fin (m_revenue (r0 ! (i - 1)))),
                                   prev_orders := (if i = 0 then NaN else Fin (real (orders (r0 ! (i - 1))))),
                                   prev_aov := (if i = 0 then NaN else aov (r0 ! (i - 1)))\<rparr>) [0..<n]"
    unfolding r3_def by (rule step_shift [OF e2]) simp
  have e4: "r4 = map (\<lambda>i. (r0 ! i)\<lparr>prev_revenue := prev_val (\<lambda>r. Fin (m_revenue r)) r0 i,
                                   prev_orders := prev_val (\<lambda>r. Fin (real (orders r))) r0 i,
                                   prev_aov := prev_val aov r0 i,
                                   revenue_change := fl_sub (Fin (m_revenue (r0 ! i))) (prev_val (\<lambda>r. Fin (m_revenue r)) r0 i)\<rparr>) [0..<n]"
    unfolding r4_def by (subst step_map [OF e3]) (simp add: prev_val_def)
  have e5: "r5 = map (\<lambda>i. (r0 ! i)\<lparr>prev_revenue := prev_val (\<lambda>r. Fin (m_revenue r)) r0 i,
                                   prev_orders := prev_val (\<lambda>r. Fin (real (orders r))) r0 i,
                                   prev_aov := prev_val aov r0 i,
                                   revenue_change := fl_sub (Fin (m_revenue (r0 ! i))) (prev_val (\<lambda>r. Fin (m_revenue r)) r0 i),
                                   orders_effect := fl_mul (fl_sub (Fin (real (orders (r0 ! i)))) (prev_val (\<lambda>r. Fin (real (orders r))) r0 i)) (prev_val aov r0 i)\<rparr>) [0..<n]"
    unfolding r5_def by (subst step_map [OF e4]) simp
  have e6: "r6 = map (work_row r0) [0..<n]"
    unfolding r6_def by (subst step_map [OF e5]) (simp add: work_row_def Let_def)
  show ?thesis using c e6 n_def by simp
qed

lemma mhas_col_msetitem: "mhas_col (msetitem c upd df vals) c' \<longleftrightarrow> c' = c \<or> mhas_col df c'"
  by (auto simp: mhas_col_def msetitem_def)

lemma mrows_msetitem: "mrows (msetitem c upd df vals) = map2 upd (mrows df) vals"
  by (simp add: msetitem_def)

lemma in_mcolumns: "c \<in> set (mcolumns df) \<longleftrightarrow> mhas_col df c"
  by (simp add: mhas_col_def)

lemma mhas_col_dropna: "mhas_col (dropna df) c \<longleftrightarrow> mhas_col df c"
  by (simp add: mhas_col_def dropna_def)

lemma mrows_dropna:
  "mrows (dropna df) = filter (\<lambda>r. \<not> row_has_na (mcolumns df) r) (mrows df)"
  by (simp add: dropna_def)

lemma revenue_decomposition_chain:
  assumes "a < length st" "mhas_col (st ! a) ''revenue''" "mhas_col (st ! a) ''orders''"
    "mhas_col (st ! a) ''aov''" "mhas_col (st ! a) ''order_month''"
  shows "snd (revenue_decomposition st a) =
     Inr \<lparr>mcolumns = [''order_month'', ''revenue'', ''revenue_change'', ''orders_effect'', ''aov_effect''],
          mrows = filter (\<lambda>r. \<not> (isna (aov r) \<or> isna (prev_revenue r) \<or> isna (prev_orders r) \<or>
                     isna (prev_aov r) \<or> isna (revenue_change r) \<or> isna (orders_effect r) \<or>
                     isna (aov_effect r))) (chain6 (mrows (st ! a)))\<rparr>"
proof -
  have nth: "\<And>x. (st @ [x]) ! length st = x" by simp
  have upd: "\<And>x y. (st @ [x])[length st := y] = st @ [y]" by simp
  show ?thesis
    unfolding revenue_decomposition_def df_copy_def
    using assms
    by (simp add: nth upd mhas_col_msetitem mrows_msetitem mhas_col_dropna mrows_dropna row_has_na_def
        in_mcolumns chain6_def Let_def nth_append del: nth_append_length list_update_length)
qed

lemma filter_first_only:
  assumes "\<not> P (f 0)" "\<And>i. 0 < i \<Longrightarrow> i < n \<Longrightarrow> P (f i)"
  shows "filter P (map f [0..<n]) = map f [Suc 0..<n]"
proof (cases n)
  case 0
  then show ?thesis by simp
next
  case (Suc m)
  have "[0..<n] = 0 # [Suc 0..<n]"
    using Suc by (simp add: upt_conv_Cons)
  moreover have "filter P (map f [Suc 0..<n]) = map f [Suc 0..<n]"
    using assms(2) by (simp add: filter_map comp_def)
  ultimately show ?thesis using assms(1) by simp
qed

lemma fl_div_pos: "0 < n \<Longrightarrow> fl_div (Fin x) (Fin (real n)) = Fin (x / real n)"
  by simp

lemma additive_identity:
  fixes rc rp :: real and oc op :: nat
  assumes "0 < oc" "0 < op"
  shows "(real oc - real op) * (rp / real op) + (rc / real oc - rp / real op) * real oc = rc - rp"
  using assms by (simp add: field_simps)

lemma work_row_fields:
  assumes i: "0 < i" "i < length rs"
    and ok: "\<forall>r\<in>set rs. 0 < orders r \<and> aov r = fl_div (Fin (m_revenue r)) (Fin (real (orders r)))"
  shows "aov (work_row rs i) = Fin (m_revenue (rs ! i) / real (orders (rs ! i)))"
    and "prev_revenue (work_row rs i) = Fin (m_revenue (rs ! (i - 1)))"
    and "prev_orders (work_row rs i) = Fin (real (orders (rs ! (i - 1))))"
    and "prev_aov (work_row rs i) = Fin (m_revenue (rs ! (i - 1)) / real (orders (rs ! (i - 1))))"
    and "revenue_change (work_row rs i) = Fin (m_revenue (rs ! i) - m_revenue (rs ! (i - 1)))"
    and "orders_effect (work_row rs i) =
           Fin ((real (orders (rs ! i)) - real (orders (rs ! (i - 1)))) *
                (m_revenue (rs ! (i - 1)) / real (orders (rs ! (i - 1)))))"
    and "aov_effect (work_row rs i) =
           Fin ((m_revenue (rs ! i) / real (orders (rs ! i)) -
                 m_revenue (rs ! (i - 1)) / real (orders (rs ! (i - 1)))) * real (orders (rs ! i)))"
proof -
  have c: "rs ! i \<in> set rs" and p: "rs ! (i - 1) \<in> set rs"
    using i by simp_all
  from ok c have oc: "0 < orders (rs ! i)" by blast
  from ok c have "aov (rs ! i) = fl_div (Fin (m_revenue (rs ! i))) (Fin (real (orders (rs ! i))))"
    by blast
  then have ac: "aov (rs ! i) = Fin (m_revenue (rs ! i) / real (orders (rs ! i)))"
    by (simp only: fl_div_pos [OF oc])
  from ok p have op: "0 < orders (rs ! (i - 1))" by blast
  from ok p have "aov (rs ! (i - 1)) =
      fl_div (Fin (m_revenue (rs ! (i - 1)))) (Fin (real (orders (rs ! (i - 1)))))"
    by blast
  then have ap: "aov (rs ! (i - 1)) = Fin (m_revenue (rs ! (i - 1)) / real (orders (rs ! (i - 1))))"
    by (simp only: fl_div_pos [OF op])
  show "aov (work_row rs i) = Fin (m_revenue (rs ! i) / real (orders (rs ! i)))"
    using ac by (simp add: work_row_def Let_def)
  show "prev_revenue (work_row rs i) = Fin (m_revenue (rs ! (i - 1)))"
    using i by (simp add: work_row_def Let_def prev_val_def)
  show "prev_orders (work_row rs i) = Fin (real (orders (rs ! (i - 1))))"
    using i by (simp add: work_row_def Let_def prev_val_def)
  show "prev_aov (work_row rs i) = Fin (m_revenue (rs ! (i - 1)) / real (orders (rs ! (i - 1))))"
    using i ap by (simp add: work_row_def Let_def prev_val_def)
  show "revenue_change (work_row rs i) = Fin (m_revenue (rs ! i) - m_revenue (rs ! (i - 1)))"
    using i by (simp add: work_row_def Let_def prev_val_def fl_sub_def)
  show "orders_effect (work_row rs i) =
           Fin ((real (orders (rs ! i)) - real (orders (rs ! (i - 1)))) *
                (m_revenue (rs ! (i - 1)) / real (orders (rs ! (i - 1)))))"
    using i ap by (simp add: work_row_def Let_def prev_val_def fl_sub_def)
  show "aov_effect (work_row rs i) =
           Fin ((m_revenue (rs ! i) / real (orders (rs ! i)) -
                 m_revenue (rs ! (i - 1)) / real (orders (rs ! (i - 1)))) * real (orders (rs ! i)))"
    using i ap ac by (simp add: work_row_def Let_def prev_val_def fl_sub_def)
qed

lemma work_row_first_na: "isna (prev_revenue (work_row rs 0))"
  by (simp add: work_row_def Let_def prev_val_def isna_def)

text \<open>
  C1, amended.  For every monthly table that has the columns order_month, revenue,
  orders and aov, in which every month has at least one order and aov is revenue
  divided by orders, \<open>revenue_decomposition\<close> returns one row for every month but the
  first; in the row of month \<open>i\<close>, revenue_change is \<open>revenue[i] - revenue[i-1]\<close>,
  orders_effect is \<open>(orders[i] - orders[i-1]) * aov[i-1]\<close>, aov_effect is
  \<open>(aov[i] - aov[i-1]) * orders[i]\<close>, and revenue_change is exactly the sum of
  orders_effect and aov_effect (in real arithmetic, all three finite).
\<close>

theorem revenue_decomposition_additive:
  assumes a: "a < length st"
    and cols: "{''order_month'', ''revenue'', ''orders'', ''aov''} \<subseteq> set (mcolumns (st ! a))"
    and ok: "\<forall>r\<in>set (mrows (st ! a)).
               0 < orders r \<and> aov r = fl_div (Fin (m_revenue r)) (Fin (real (orders r)))"
  shows "\<exists>out. snd (revenue_decomposition st a) = Inr out \<and>
     length (mrows out) = length (mrows (st ! a)) - 1 \<and>
     (\<forall>j<length (mrows out).
        revenue_change (mrows out ! j) =
          Fin (m_revenue (mrows (st ! a) ! Suc j) - m_revenue (mrows (st ! a) ! j)) \<and>
        orders_effect (mrows out ! j) =
          fl_mul (fl_sub (Fin (real (orders (mrows (st ! a) ! Suc j))))
                         (Fin (real (orders (mrows (st ! a) ! j)))))
                 (aov (mrows (st ! a) ! j)) \<and>
        aov_effect (mrows out ! j) =
          fl_mul (fl_sub (aov (mrows (st ! a) ! Suc j)) (aov (mrows (st ! a) ! j)))
                 (Fin (real (orders (mrows (st ! a) ! Suc j)))) \<and>
        fl_add (orders_effect (mrows out ! j)) (aov_effect (mrows out ! j)) =
          revenue_change (mrows out ! j))"
proof -
  define rs where "rs = mrows (st ! a)"
  define n where "n = length rs"
  define P where "P = (\<lambda>r::monthly_row. \<not> (isna (aov r) \<or> isna (prev_revenue r) \<or> isna (prev_orders r) \<or>
                     isna (prev_aov r) \<or> isna (revenue_change r) \<or> isna (orders_effect r) \<or>
                     isna (aov_effect r)))"
  define out where "out = \<lparr>mcolumns = [''order_month'', ''revenue'', ''revenue_change'',
                                        ''orders_effect'', ''aov_effect''],
                            mrows = filter P (chain6 rs)\<rparr>"
  from cols have "mhas_col (st ! a) ''revenue''" "mhas_col (st ! a) ''orders''"
    "mhas_col (st ! a) ''aov''" "mhas_col (st ! a) ''order_month''"
    by (simp_all add: mhas_col_def)
  from revenue_decomposition_chain [OF a this]
  have res: "snd (revenue_decomposition st a) = Inr out"
    by (simp add: out_def P_def rs_def)
  have ok': "\<forall>r\<in>set rs. 0 < orders r \<and> aov r = fl_div (Fin (m_revenue r)) (Fin (real (orders r)))"
    using ok by (simp add: rs_def)
  have keep: "P (work_row rs i)" if "0 < i" "i < n" for i
    using work_row_fields [OF that(1) that(2) [unfolded n_def] ok']
    by (simp add: P_def isna_def)
  have drop: "\<not> P (work_row rs 0)"
    using work_row_first_na by (simp add: P_def)
  have rows: "mrows out = map (work_row rs) [Suc 0..<n]"
    unfolding out_def using filter_first_only [of P "work_row rs" n, OF drop keep]
    by (simp add: chain6_work n_def)
  have len: "length (mrows out) = n - 1"
    by (simp add: rows)
  have row: "revenue_change (mrows out ! j) = Fin (m_revenue (rs ! Suc j) - m_revenue (rs ! j)) \<and>
        orders_effect (mrows out ! j) =
          fl_mul (fl_sub (Fin (real (orders (rs ! Suc j)))) (Fin (real (orders (rs ! j)))))
                 (aov (rs ! j)) \<and>
        aov_effect (mrows out ! j) =
          fl_mul (fl_sub (aov (rs ! Suc j)) (aov (rs ! j))) (Fin (real (orders (rs ! Suc j)))) \<and>
        fl_add (orders_effect (mrows out ! j)) (aov_effect (mrows out ! j)) =
          revenue_change (mrows out ! j)"
    if j: "j < length (mrows out)" for j
  proof -
    from j len have i: "0 < Suc j" "Suc j < length rs"
      by (simp_all add: n_def)
    have nth: "mrows out ! j = work_row rs (Suc j)"
      using j by (simp add: rows)
    have c: "rs ! Suc j \<in> set rs" and p: "rs ! j \<in> set rs"
      using i by simp_all
    from ok' c have oc: "0 < orders (rs ! Suc j)" by blast
    from ok' c have "aov (rs ! Suc j) =
        fl_div (Fin (m_revenue (rs ! Suc j))) (Fin (real (orders (rs ! Suc j))))"
      by blast
    then have ac: "aov (rs ! Suc j) = Fin (m_revenue (rs ! Suc j) / real (orders (rs ! Suc j)))"
      by (simp only: fl_div_pos [OF oc])
    from ok' p have op: "0 < orders (rs ! j)" by blast
    from ok' p have "aov (rs ! j) = fl_div (Fin (m_revenue (rs ! j))) (Fin (real (orders (rs ! j))))"
      by blast
    then have ap: "aov (rs ! j) = Fin (m_revenue (rs ! j) / real (orders (rs ! j)))"
      by (simp only: fl_div_pos [OF op])
    note f = work_row_fields [OF i ok', simplified]
    show ?thesis
      unfolding nth f(5) f(6) f(7) ac ap
      using additive_identity [OF oc op, of "m_revenue (rs ! j)" "m_revenue (rs ! Suc j)"]
      by (simp add: fl_sub_def)
  qed
  show ?thesis
    using res len row unfolding rs_def [symmetric] n_def by blast
qed


theorem revenue_decomposition_additive_witness:
  "\<exists>out. snd (revenue_decomposition
       [\<lparr>mcolumns = [''order_month'', ''revenue'', ''orders'', ''aov''],
          mrows = [\<lparr>m_order_month = (2024, 1), m_revenue = 100, orders = 2, aov = Fin 50,
                    prev_revenue = NaN, prev_orders = NaN, prev_aov = NaN,
                    revenue_change = NaN, orders_effect = NaN, aov_effect = NaN\<rparr>,
                   \<lparr>m_order_month = (2024, 2), m_revenue = 300, orders = 3, aov = Fin 100,
                    prev_revenue = NaN, prev_orders = NaN, prev_aov = NaN,
                    revenue_change = NaN, orders_effect = NaN, aov_effect = NaN\<rparr>]\<rparr>] 0) = Inr out \<and>
     length (mrows out) = 1 \<and>
     revenue_change (mrows out ! 0) = Fin 200 \<and>
     orders_effect (mrows out ! 0) = Fin 50 \<and>
     aov_effect (mrows out ! 0) = Fin 150 \<and>
     fl_add (orders_effect (mrows out ! 0)) (aov_effect (mrows out ! 0)) =
       revenue_change (mrows out ! 0)"
  using revenue_decomposition_additive
    [of 0 "[\<lparr>mcolumns = [''order_month'', ''revenue'', ''orders'', ''aov''],
          mrows = [\<lparr>m_order_month = (2024, 1), m_revenue = 100, orders = 2, aov = Fin 50,
                    prev_revenue = NaN, prev_orders = NaN, prev_aov = NaN,
                    revenue_change = NaN, orders_effect = NaN, aov_effect = NaN\<rparr>,
                   \<lparr>m_order_month = (2024, 2), m_revenue = 300, orders = 3, aov = Fin 100,
                    prev_revenue = NaN, prev_orders = NaN, prev_aov = NaN,
                    revenue_change = NaN, orders_effect = NaN, aov_effect = NaN\<rparr>]\<rparr>]"]
  by (auto simp: fl_sub_def)

lemma zero_orders_month_kpis: "snd (monthly_kpis
       [\<lparr>columns = REQUIRED_COLUMNS,
         rows = [\<lparr>order_id = None, order_date = (2024, 1, 5), product_name = ''pen'',
                   category = ''office'', region = ''north'', quantity = 1, unit_price = 100,
                   revenue = 100, order_month = (0, 0)\<rparr>,
                 \<lparr>order_id = Some 7, order_date = (2024, 2, 9), product_name = ''ink'',
                   category = ''office'', region = ''south'', quantity = 1, unit_price = 200,
                   revenue = 200, order_month = (0, 0)\<rparr>]\<rparr>] 0) =
     Inr \<lparr>mcolumns = [''order_month'', ''revenue'', ''orders'', ''aov''],
          mrows = [\<lparr>m_order_month = (2024, 1), m_revenue = 100, orders = 0, aov = PInf,
                    prev_revenue = NaN, prev_orders = NaN, prev_aov = NaN,
                    revenue_change = NaN, orders_effect = NaN, aov_effect = NaN\<rparr>,
                   \<lparr>m_order_month = (2024, 2), m_revenue = 200, orders = 1, aov = Fin 200,
                    prev_revenue = NaN, prev_orders = NaN, prev_aov = NaN,
                    revenue_change = NaN, orders_effect = NaN, aov_effect = NaN\<rparr>]\<rparr>"
  by (subst monthly_kpis_result)
     (simp_all add: REQUIRED_COLUMNS_def has_col_def group_keys_def monthly_agg_row_def
        group_rows_def nunique_def List.map_filter_def to_period_def date_year_def
        date_month_def signed_inf_def Let_def)

lemma zero_orders_month_decomposition: "snd (revenue_decomposition
       [\<lparr>mcolumns = [''order_month'', ''revenue'', ''orders'', ''aov''],
          mrows = [\<lparr>m_order_month = (2024, 1), m_revenue = 100, orders = 0, aov = PInf,
                    prev_revenue = NaN, prev_orders = NaN, prev_aov = NaN,
                    revenue_change = NaN, orders_effect = NaN, aov_effect = NaN\<rparr>,
                   \<lparr>m_order_month = (2024, 2), m_revenue = 200, orders = 1, aov = Fin 200,
                    prev_revenue = NaN, prev_orders = NaN, prev_aov = NaN,
                    revenue_change = NaN, orders_effect = NaN, aov_effect = NaN\<rparr>]\<rparr>] 0) =
     Inr \<lparr>mcolumns = [''order_month'', ''revenue'', ''revenue_change'', ''orders_effect'',
                      ''aov_effect''],
          mrows = [\<lparr>m_order_month = (2024, 2), m_revenue = 200, orders = 1, aov = Fin 200,
                    prev_revenue = Fin 100, prev_orders = Fin 0, prev_aov = PInf,
                    revenue_change = Fin 100, orders_effect = PInf, aov_effect = NInf\<rparr>]\<rparr>"
  by (subst revenue_decomposition_chain)
     (simp_all add: mhas_col_def chain6_work work_row_def prev_val_def isna_def fl_sub_def
        signed_inf_def Let_def upt_conv_Cons)

text \<open>
  C1 as stated fails when a month has no order: the orders of January all lack an order
  id, so January has orders \<open>0\<close> and aov \<open>100 / 0 = inf\<close>; the row of February is kept
  (it holds no NaN), its orders_effect is \<open>(1 - 0) * inf = inf\<close>, its aov_effect is
  \<open>(200 - inf) * 1 = -inf\<close>, and their sum is NaN, not the revenue_change \<open>100\<close>.
\<close>

theorem revenue_decomposition_zero_orders_month:
  "snd (monthly_kpis
       [\<lparr>columns = REQUIRED_COLUMNS,
         rows = [\<lparr>order_id = None, order_date = (2024, 1, 5), product_name = ''pen'',
                   category = ''office'', region = ''north'', quantity = 1, unit_price = 100,
                   revenue = 100, order_month = (0, 0)\<rparr>,
                 \<lparr>order_id = Some 7, order_date = (2024, 2, 9), product_name = ''ink'',
                   category = ''office'', region = ''south'', quantity = 1, unit_price = 200,
                   revenue = 200, order_month = (0, 0)\<rparr>]\<rparr>] 0) =
     Inr \<lparr>mcolumns = [''order_month'', ''revenue'', ''orders'', ''aov''],
          mrows = [\<lparr>m_order_month = (2024, 1), m_revenue = 100, orders = 0, aov = PInf,
                    prev_revenue = NaN, prev_orders = NaN, prev_aov = NaN,
                    revenue_change = NaN, orders_effect = NaN, aov_effect = NaN\<rparr>,
                   \<lparr>m_order_month = (2024, 2), m_revenue = 200, orders = 1, aov = Fin 200,
                    prev_revenue = NaN, prev_orders = NaN, prev_aov = NaN,
                    revenue_change = NaN, orders_effect = NaN, aov_effect = NaN\<rparr>]\<rparr> \<and>
   snd (revenue_decomposition
       [\<lparr>mcolumns = [''order_month'', ''revenue'', ''orders'', ''aov''],
          mrows = [\<lparr>m_order_month = (2024, 1), m_revenue = 100, orders = 0, aov = PInf,
                    prev_revenue = NaN, prev_orders = NaN, prev_aov = NaN,
                    revenue_change = NaN, orders_effect = NaN, aov_effect = NaN\<rparr>,
                   \<lparr>m_order_month = (2024, 2), m_revenue = 200, orders = 1, aov = Fin 200,
                    prev_revenue = NaN, prev_orders = NaN, prev_aov = NaN,
                    revenue_change = NaN, orders_effect = NaN, aov_effect = NaN\<rparr>]\<rparr>] 0) =
     Inr \<lparr>mcolumns = [''order_month'', ''revenue'', ''revenue_change'', ''orders_effect'',
                      ''aov_effect''],
          mrows = [\<lparr>m_order_month = (2024, 2), m_revenue = 200, orders = 1, aov = Fin 200,
                    prev_revenue = Fin 100, prev_orders = Fin 0, prev_aov = PInf,
                    revenue_change = Fin 100, orders_effect = PInf, aov_effect = NInf\<rparr>]\<rparr> \<and>
   fl_add PInf NInf \<noteq> Fin 100"
  using zero_orders_month_kpis zero_orders_month_decomposition by simp

subsection \<open>Forecaster\<close>

lemma add_months_fields:
  "1 \<le> date_month (add_months d i) \<and> date_month (add_months d i) \<le> 12 \<and>
   12 * date_year (add_months d i) + int (date_month (add_months d i)) =
     12 * date_year d + int (date_month d) + i"
proof -
  define idx where "idx = int (date_month d) - 1 + i"
  have m: "date_month (add_months d i) = nat (idx mod 12) + 1"
    by (simp add: add_months_def Let_def date_month_def idx_def)
  have y: "date_year (add_months d i) = date_year d + idx div 12"
    by (simp add: add_months_def Let_def date_year_def idx_def)
  have r: "0 \<le> idx mod 12" "idx mod 12 < 12"
    by simp_all
  have n: "int (nat (idx mod 12) + 1) = idx mod 12 + 1"
    using r by simp
  have b: "nat (idx mod 12) + 1 \<le> 12"
    using r by linarith
  define q where "q = idx div 12"
  define r' where "r' = idx mod 12"
  have e: "12 * q + r' = idx"
    by (simp add: q_def r'_def)
  have "12 * (date_year d + q) + (r' + 1) = 12 * date_year d + int (date_month d) + i"
    using e idx_def by (simp add: algebra_simps)
  then have "12 * (date_year d + idx div 12) + int (nat (idx mod 12) + 1) =
        12 * date_year d + int (date_month d) + i"
    unfolding n q_def r'_def .
  then show ?thesis
    unfolding m y using b by simp
qed

lemma december_rollover:
  fixes m :: nat and y Y :: int
  shows "1 \<le> m \<Longrightarrow> m \<le> 12 \<Longrightarrow> 12 * y + int m = 13 + 12 * Y \<Longrightarrow> m = 1 \<and> y = Y + 1"
  by presburger

lemma upto_length: "length [1..periods] = nat periods"
  by simp

lemma upto_nth: "i < nat periods \<Longrightarrow> [1..periods] ! i = 1 + int i"
  by (simp add: nth_upto)

text \<open>
  C5.  For every non-empty monthly series and every \<open>periods >= 1\<close>, \<open>forecast_future\<close>
  returns exactly \<open>periods\<close> rows.  Row \<open>i\<close> (from zero) has the trend \<open>max trend + i + 1\<close>;
  its month is between 1 and 12 and its month and year are those of the calendar month
  \<open>i + 1\<close> months after the last observed month (counting months as \<open>12 * year + month\<close>);
  they are the month and year of its timestamp, and its forecast is the model's
  prediction for (month, year, trend).  After a last observed December of year \<open>Y\<close> the
  first row is January of \<open>Y + 1\<close>.
\<close>

theorem forecast_future_rows:
  assumes ne: "last_monthly_df \<noteq> []" and p: "1 \<le> periods"
  shows "\<exists>out. forecast_future predict last_monthly_df periods = Inr out \<and>
     length out = nat periods \<and>
     (\<forall>i<nat periods.
        f_trend (out ! i) = Max (set (map trend last_monthly_df)) + (int i + 1) \<and>
        1 \<le> f_month (out ! i) \<and> f_month (out ! i) \<le> 12 \<and>
        12 * f_year (out ! i) + int (f_month (out ! i)) =
          12 * date_year (Max (set (map s_order_month last_monthly_df))) +
          int (date_month (Max (set (map s_order_month last_monthly_df)))) + (int i + 1) \<and>
        date_year (f_order_month (out ! i)) = f_year (out ! i) \<and>
        date_month (f_order_month (out ! i)) = f_month (out ! i) \<and>
        forecast_revenue (out ! i) =
          predict (f_month (out ! i), f_year (out ! i), f_trend (out ! i))) \<and>
     (date_month (Max (set (map s_order_month last_monthly_df))) = 12 \<longrightarrow>
        f_month (out ! 0) = 1 \<and>
        f_year (out ! 0) = date_year (Max (set (map s_order_month last_monthly_df))) + 1)"
proof -
  define L where "L = Max (set (map s_order_month last_monthly_df))"
  define T where "T = Max (set (map trend last_monthly_df))"
  define row where "row = (\<lambda>i. \<lparr>f_order_month = add_months L i,
      f_month = date_month (add_months L i), f_year = date_year (add_months L i),
      f_trend = T + i,
      forecast_revenue = predict (date_month (add_months L i), date_year (add_months L i), T + i)\<rparr>)"
  define out where "out = map row [1..periods]"
  have nonempty: "[1..periods] \<noteq> []"
    using p by (simp add: upto_rec1)
  have res: "forecast_future predict last_monthly_df periods = Inr out"
    using ne nonempty
    by (simp add: forecast_future_def Let_def out_def row_def L_def T_def comp_def)
  have len: "length out = nat periods"
    by (simp add: out_def)
  have nth: "out ! i = row (1 + int i)" if "i < nat periods" for i
    using that by (simp add: out_def upto_nth)
  have rows: "f_trend (out ! i) = T + (int i + 1) \<and>
        1 \<le> f_month (out ! i) \<and> f_month (out ! i) \<le> 12 \<and>
        12 * f_year (out ! i) + int (f_month (out ! i)) =
          12 * date_year L + int (date_month L) + (int i + 1) \<and>
        date_year (f_order_month (out ! i)) = f_year (out ! i) \<and>
        date_month (f_order_month (out ! i)) = f_month (out ! i) \<and>
        forecast_revenue (out ! i) =
          predict (f_month (out ! i), f_year (out ! i), f_trend (out ! i))"
    if "i < nat periods" for i
    using add_months_fields [of L "1 + int i"]
    by (simp add: nth [OF that] row_def add.commute)
  have dec: "f_month (out ! 0) = 1 \<and> f_year (out ! 0) = date_year L + 1"
    if "date_month L = 12"
  proof -
    have "0 < nat periods" using p by simp
    from rows [OF this] that
    have "1 \<le> f_month (out ! 0)" "f_month (out ! 0) \<le> 12"
      "12 * f_year (out ! 0) + int (f_month (out ! 0)) = 13 + 12 * date_year L"
      by simp_all
    then show ?thesis by (rule december_rollover)
  qed
  show ?thesis
    using res len rows dec unfolding L_def T_def by blast
qed

theorem forecast_future_rows_witness:
  "\<exists>out. forecast_future (\<lambda>x. 0)
       [\<lparr>s_order_month = (2024, 11, 1), s_revenue = 900, month = 11, year = 2024, trend = 0\<rparr>,
        \<lparr>s_order_month = (2024, 12, 1), s_revenue = 1200, month = 12, year = 2024, trend = 1\<rparr>]
       6 = Inr out \<and>
     length out = 6 \<and> f_trend (out ! 0) = 2 \<and> f_month (out ! 0) = 1 \<and>
     f_year (out ! 0) = 2025"
  using forecast_future_rows
    [of "[\<lparr>s_order_month = (2024, 11, 1), s_revenue = 900, month = 11, year = 2024, trend = 0\<rparr>,
          \<lparr>s_order_month = (2024, 12, 1), s_revenue = 1200, month = 12, year = 2024, trend = 1\<rparr>]"
        6 "\<lambda>x. 0"]
  by (auto simp: date_month_def date_year_def)

subsection \<open>The store\<close>

lemma monthly_kpis_store: "\<exists>f. fst (monthly_kpis st a) = st @ [f]"
  by (simp add: monthly_kpis_def df_copy_def Let_def)

lemma prepare_monthly_series_store: "\<exists>f. fst (prepare_monthly_series st a) = st @ [f]"
  by (simp add: prepare_monthly_series_def df_copy_def Let_def)

lemma revenue_decomposition_store: "\<exists>f. fst (revenue_decomposition st a) = st @ [f]"
proof -
  have nth: "\<And>x. (st @ [x]) ! length st = x" by simp
  have upd: "\<And>x y. (st @ [x])[length st := y] = st @ [y]" by simp
  show ?thesis
    unfolding revenue_decomposition_def df_copy_def
    by (simp add: nth upd Let_def del: nth_append_length list_update_length)
qed

text \<open>
  The copy is what the assignment changes: the object that \<open>monthly_kpis\<close> allocates has
  the column \<open>order_month\<close>, which the argument lacks.
\<close>

lemma monthly_kpis_writes_copy:
  "columns (fst (monthly_kpis
     [\<lparr>columns = REQUIRED_COLUMNS,
       rows = [\<lparr>order_id = Some 1, order_date = (2024, 1, 5), product_name = ''pen'',
                 category = ''office'', region = ''north'', quantity = 2, unit_price = 50,
                 revenue = 100, order_month = (0, 0)\<rparr>]\<rparr>] 0) ! 1) =
   REQUIRED_COLUMNS @ [''order_month'']"
  by (simp add: monthly_kpis_def df_copy_def Let_def has_col_def setitem_order_month_def
      REQUIRED_COLUMNS_def)

subsection \<open>Outliers\<close>

lemma interp_bounds:
  assumes s: "sorted s" and n: "s \<noteq> []" and x0: "0 \<le> x" and x1: "x \<le> real (length s - 1)"
  shows "s ! nat \<lfloor>x\<rfloor> \<le> interp s x"
    and "interp s x \<le> s ! min (nat \<lfloor>x\<rfloor> + 1) (length s - 1)"
proof -
  define lo where "lo = nat \<lfloor>x\<rfloor>"
  define hi where "hi = min (lo + 1) (length s - 1)"
  have lo_le: "real lo \<le> x" using x0 by (simp add: lo_def)
  have x_lt: "x < real lo + 1" using x0 by (simp add: lo_def)
  have "lo \<le> length s - 1"
    using x1 lo_le by (metis lo_def floor_of_nat le_nat_floor nat_int of_nat_le_iff x0 order_trans)
  moreover have pos: "0 < length s" using n by simp
  ultimately have lo_n: "lo < length s" and hi_n: "hi < length s" and lh: "lo \<le> hi"
    unfolding hi_def by linarith+
  have d: "s ! lo \<le> s ! hi"
    using s lh hi_n by (simp add: sorted_nth_mono)
  have e: "interp s x = s ! lo + (x - real lo) * (s ! hi - s ! lo)"
    by (simp add: interp_def lo_def hi_def Let_def)
  have f0: "0 \<le> x - real lo" and f1: "x - real lo \<le> 1"
    using lo_le x_lt by simp_all
  have "0 \<le> (x - real lo) * (s ! hi - s ! lo)"
    using f0 d by simp
  then show "s ! nat \<lfloor>x\<rfloor> \<le> interp s x"
    unfolding e lo_def [symmetric] by simp
  have "(x - real lo) * (s ! hi - s ! lo) \<le> 1 * (s ! hi - s ! lo)"
    using f1 d by (intro mult_right_mono) simp_all
  then show "interp s x \<le> s ! min (nat \<lfloor>x\<rfloor> + 1) (length s - 1)"
    unfolding e lo_def [symmetric] hi_def [symmetric] by simp
qed

lemma interp_mono:
  assumes s: "sorted s" and n: "s \<noteq> []" and x0: "0 \<le> x" and xy: "x \<le> y"
    and y1: "y \<le> real (length s - 1)"
  shows "interp s x \<le> interp s y"
proof -
  define lx where "lx = nat \<lfloor>x\<rfloor>"
  define ly where "ly = nat \<lfloor>y\<rfloor>"
  have y0: "0 \<le> y" and x1: "x \<le> real (length s - 1)"
    using x0 xy y1 by simp_all
  have l: "lx \<le> ly"
    unfolding lx_def ly_def using xy by (simp add: floor_mono nat_mono)
  have ly_le: "real ly \<le> y" using y0 by (simp add: ly_def)
  have "ly \<le> length s - 1"
    using y1 ly_le by (metis ly_def floor_of_nat le_nat_floor nat_int of_nat_le_iff y0 order_trans)
  moreover have "0 < length s" using n by simp
  ultimately have ly_n: "ly < length s" by linarith
  show ?thesis
  proof (cases "lx = ly")
    case True
    define hi where "hi = min (lx + 1) (length s - 1)"
    have hi_n: "hi < length s" and lh: "lx \<le> hi"
      unfolding hi_def using ly_n True by linarith+
    have d: "0 \<le> s ! hi - s ! lx"
      using s lh hi_n by (simp add: sorted_nth_mono)
    have ex: "interp s x = s ! lx + (x - real lx) * (s ! hi - s ! lx)"
      by (simp add: interp_def lx_def hi_def Let_def)
    have ey: "interp s y = s ! lx + (y - real lx) * (s ! hi - s ! lx)"
      using True by (simp add: interp_def ly_def lx_def hi_def Let_def)
    have "(x - real lx) * (s ! hi - s ! lx) \<le> (y - real lx) * (s ! hi - s ! lx)"
      using xy d by (intro mult_right_mono) simp_all
    then show ?thesis unfolding ex ey by simp
  next
    case False
    with l have lt: "lx < ly" by simp
    have "interp s x \<le> s ! min (lx + 1) (length s - 1)"
      using interp_bounds(2) [OF s n x0 x1] by (simp add: lx_def)
    also have "\<dots> \<le> s ! ly"
      using s lt ly_n by (intro sorted_nth_mono) simp_all
    also have "\<dots> \<le> interp s y"
      using interp_bounds(1) [OF s n y0 y1] by (simp add: ly_def)
    finally show ?thesis .
  qed
qed

lemma interp_const:
  assumes "s \<noteq> []" "\<forall>v\<in>set s. v = c" "0 \<le> x" "x \<le> real (length s - 1)"
  shows "interp s x = c"
proof -
  define lo where "lo = nat \<lfloor>x\<rfloor>"
  define hi where "hi = min (lo + 1) (length s - 1)"
  have lo_le: "real lo \<le> x" using assms(3) by (simp add: lo_def)
  have "lo \<le> length s - 1"
    using assms(4) lo_le
    by (metis lo_def floor_of_nat le_nat_floor nat_int of_nat_le_iff assms(3) order_trans)
  moreover have "0 < length s" using assms(1) by simp
  ultimately have "lo < length s" "hi < length s"
    unfolding hi_def by linarith+
  then have "s ! lo = c" "s ! hi = c"
    using assms(2) nth_mem by blast+
  moreover have "interp s x = s ! lo + (x - real lo) * (s ! hi - s ! lo)"
    by (simp add: interp_def lo_def hi_def Let_def)
  ultimately show ?thesis by simp
qed

lemma fence_order:
  fixes q1 q3 :: real
  assumes "q1 \<le> q3"
  shows "q1 - 1.5 * (q3 - q1) \<le> q3 + 1.5 * (q3 - q1)"
proof -
  have "0 \<le> 1.5 * (q3 - q1)" using assms by simp
  then show ?thesis using assms by linarith
qed

lemma quantile_interp:
  "xs \<noteq> [] \<Longrightarrow> quantile xs q = Fin (interp (sort xs) (q * real (length xs - 1)))"
  by (simp add: quantile_def interp_def Let_def)

text \<open>
  C6.  On a non-empty dataset with a revenue column, \<open>detect_revenue_outliers\<close> returns
  the frame of exactly the rows, in their order, whose revenue is below
  \<open>Q1 - 1.5 * IQR\<close> or above \<open>Q3 + 1.5 * IQR\<close>, where \<open>Q1 <= Q3\<close> are the 0.25 and 0.75
  quantiles and \<open>IQR = Q3 - Q1\<close>; no returned row has its revenue on a bound of the
  fence, and when all revenue values are equal no row is returned.
\<close>

theorem detect_revenue_outliers_fence:
  assumes c: "has_col df ''revenue''" and ne: "rows df \<noteq> []"
  shows "\<exists>q1 q3 out.
     quantile (map revenue (rows df)) 0.25 = Fin q1 \<and>
     quantile (map revenue (rows df)) 0.75 = Fin q3 \<and>
     q1 \<le> q3 \<and>
     detect_revenue_outliers df = Inr out \<and>
     columns out = columns df \<and>
     rows out = filter (\<lambda>r. revenue r < q1 - 1.5 * (q3 - q1) \<or>
                            q3 + 1.5 * (q3 - q1) < revenue r) (rows df) \<and>
     (\<forall>r\<in>set (rows out). revenue r \<noteq> q1 - 1.5 * (q3 - q1) \<and>
                            revenue r \<noteq> q3 + 1.5 * (q3 - q1)) \<and>
     ((\<forall>r\<in>set (rows df). revenue r = v) \<longrightarrow> rows out = [])"
proof -
  define xs where "xs = map revenue (rows df)"
  define s where "s = sort xs"
  define q1 where "q1 = interp s (0.25 * real (length xs - 1))"
  define q3 where "q3 = interp s (0.75 * real (length xs - 1))"
  define out where "out = df_filter (\<lambda>r. revenue r < q1 - 1.5 * (q3 - q1) \<or>
                            q3 + 1.5 * (q3 - q1) < revenue r) df"
  have xs_ne: "xs \<noteq> []" using ne by (simp add: xs_def)
  have s_sorted: "sorted s" and s_len: "length s = length xs"
    by (simp_all add: s_def)
  have s_ne: "s \<noteq> []"
    using xs_ne s_len by (metis length_0_conv)
  have e1: "quantile xs 0.25 = Fin q1" and e3: "quantile xs 0.75 = Fin q3"
    using xs_ne by (simp_all add: quantile_interp q1_def q3_def s_def)
  have p0: "0 \<le> 0.25 * real (length xs - 1)"
    and p1: "0.25 * real (length xs - 1) \<le> 0.75 * real (length xs - 1)"
    and p2: "0.75 * real (length xs - 1) \<le> real (length s - 1)"
    and p3: "0.25 * real (length xs - 1) \<le> real (length s - 1)"
    and p4: "0 \<le> 0.75 * real (length xs - 1)"
    by (simp_all add: s_len)
  have le: "q1 \<le> q3"
    unfolding q1_def q3_def by (rule interp_mono [OF s_sorted s_ne p0 p1 p2])
  have res: "detect_revenue_outliers df = Inr out"
    using c e1 e3
    by (simp add: detect_revenue_outliers_def xs_def [symmetric] Let_def fl_sub_def fl_gt_def
        out_def)
  have bounds: "\<forall>r\<in>set (rows out). revenue r \<noteq> q1 - 1.5 * (q3 - q1) \<and>
                            revenue r \<noteq> q3 + 1.5 * (q3 - q1)"
  proof
    fix r assume "r \<in> set (rows out)"
    then have "revenue r < q1 - 1.5 * (q3 - q1) \<or> q3 + 1.5 * (q3 - q1) < revenue r"
      by (simp add: out_def df_filter_def)
    with fence_order [OF le]
    show "revenue r \<noteq> q1 - 1.5 * (q3 - q1) \<and> revenue r \<noteq> q3 + 1.5 * (q3 - q1)"
      by linarith
  qed
  have eq: "rows out = []" if all: "\<forall>r\<in>set (rows df). revenue r = v"
  proof -
    have "\<forall>x\<in>set s. x = v"
      using all by (auto simp: s_def xs_def)
    then have "q1 = v" "q3 = v"
      unfolding q1_def q3_def
      using interp_const [OF s_ne _ p0 p3] interp_const [OF s_ne _ p4 p2] by blast+
    then show ?thesis
      using all by (simp add: out_def df_filter_def)
  qed
  show ?thesis
    using e1 e3 le res bounds eq
    unfolding xs_def by (intro exI [of _ q1] exI [of _ q3] exI [of _ out])
      (simp add: out_def df_filter_def)
qed

theorem detect_revenue_outliers_fence_witness:
  "detect_revenue_outliers
     \<lparr>columns = REQUIRED_COLUMNS,
      rows = [\<lparr>order_id = Some 1, order_date = (2024, 1, 5), product_name = ''pen'',
                category = ''office'', region = ''north'', quantity = 2, unit_price = 50,
                revenue = 100, order_month = (0, 0)\<rparr>,
              \<lparr>order_id = Some 2, order_date = (2024, 2, 9), product_name = ''ink'',
                category = ''office'', region = ''south'', quantity = 1, unit_price = 100,
                revenue = 100, order_month = (0, 0)\<rparr>]\<rparr>
   = Inr \<lparr>columns = REQUIRED_COLUMNS, rows = []\<rparr>"
  using detect_revenue_outliers_fence
    [of "\<lparr>columns = REQUIRED_COLUMNS,
      rows = [\<lparr>order_id = Some 1, order_date = (2024, 1, 5), product_name = ''pen'',
                category = ''office'', region = ''north'', quantity = 2, unit_price = 50,
                revenue = 100, order_month = (0, 0)\<rparr>,
              \<lparr>order_id = Some 2, order_date = (2024, 2, 9), product_name = ''ink'',
                category = ''office'', region = ''south'', quantity = 1, unit_price = 100,
                revenue = 100, order_month = (0, 0)\<rparr>]\<rparr>" 100]
  by (auto simp: has_col_def REQUIRED_COLUMNS_def)

subsection \<open>Pareto engine\<close>









lemma map_third_zip:
  "length ps = length ss \<Longrightarrow> length ss = length cs \<Longrightarrow>
   map (\<lambda>(g, s, c). h g s c) (zip ps (zip ss cs)) =
   map (\<lambda>i. h (ps ! i) (ss ! i) (cs ! i)) [0..<length ps]"
  by (intro nth_equalityI) simp_all








subsection \<open>The store: validator, pareto engine, baseline\<close>

lemma validate_business_rules_store:
  "\<exists>fs. fst (validate_business_rules_st st a) = st @ fs"
  by (simp add: validate_business_rules_st_def alloc_def Let_def)

lemma detect_revenue_outliers_store:
  "\<exists>fs. fst (detect_revenue_outliers_st st a) = st @ fs"
  by (simp add: detect_revenue_outliers_st_def alloc_def Let_def)

lemma run_full_validation_store:
  "\<exists>fs. fst (run_full_validation st a missing) = st @ fs"
proof -
  obtain fs where f: "fst (validate_business_rules_st st a) = st @ fs"
    using validate_business_rules_store by blast
  obtain gs where g: "fst (detect_revenue_outliers_st (st @ fs) a) = (st @ fs) @ gs"
    using detect_revenue_outliers_store by blast
  show ?thesis
  proof (cases "validate_business_rules_st st a")
    case (Pair st1 r1)
    with f have st1: "st1 = st @ fs" by simp
    show ?thesis
    proof (cases r1)
      case (Inl e)
      with Pair st1 show ?thesis by (simp add: run_full_validation_def)
    next
      case (Inr issues)
      show ?thesis
      proof (cases "detect_revenue_outliers_st st1 a")
        case (Pair st2 r2)
        with g st1 have "st2 = st @ (fs @ gs)" by simp
        with Pair \<open>validate_business_rules_st st a = (st1, r1)\<close> Inr show ?thesis
          by (cases r2) (simp_all add: run_full_validation_def)
      qed
    qed
  qed
qed

lemma baseline_metrics_store: "fst (baseline_metrics_st st a) = st"
  by (simp add: baseline_metrics_st_def)

lemma pareto_by_store:
  "frames (fst (pareto_by_st key col S a t)) = frames S \<and>
   take (length (tables S)) (tables (fst (pareto_by_st key col S a t))) = tables S"
proof -
  have nth: "\<And>x. (tables S @ [x]) ! length (tables S) = x" by simp
  have upd: "\<And>x y. (tables S @ [x])[length (tables S) := y] = tables S @ [y]" by simp
  show ?thesis
    unfolding pareto_by_st_def
    by (simp add: nth upd Let_def del: nth_append_length list_update_length fl_div.simps)
qed

text \<open>
  C9.  After a call of \<open>monthly_kpis\<close>, \<open>prepare_monthly_series\<close>, a pareto function, a
  validation function or \<open>baseline_metrics\<close> on a dataset, and after a call of
  \<open>revenue_decomposition\<close> on a monthly table, every object that existed before the
  call is as it was; in particular the argument has the same rows and columns.  The
  functions that assign columns write to an object they allocate (the copy, or the
  grouped table of the pareto functions), and the frames that the validation functions
  return are new objects.
\<close>

theorem source_dataset_not_mutated:
  assumes a: "a < length st" and b: "b < length mst"
  shows "take (length st) (fst (monthly_kpis st a)) = st \<and>
     fst (monthly_kpis st a) ! a = st ! a \<and>
     take (length st) (fst (prepare_monthly_series st a)) = st \<and>
     fst (prepare_monthly_series st a) ! a = st ! a \<and>
     take (length mst) (fst (revenue_decomposition mst b)) = mst \<and>
     fst (revenue_decomposition mst b) ! b = mst ! b \<and>
     frames (fst (pareto_products_st \<lparr>frames = st, tables = ts\<rparr> a threshold)) = st \<and>
     take (length ts)
       (tables (fst (pareto_products_st \<lparr>frames = st, tables = ts\<rparr> a threshold))) = ts \<and>
     frames (fst (pareto_categories_st \<lparr>frames = st, tables = ts\<rparr> a threshold)) = st \<and>
     take (length ts)
       (tables (fst (pareto_categories_st \<lparr>frames = st, tables = ts\<rparr> a threshold))) = ts \<and>
     (\<forall>r. validate_schema_st st a r \<longrightarrow> fst r = st) \<and>
     take (length st) (fst (validate_business_rules_st st a)) = st \<and>
     fst (validate_business_rules_st st a) ! a = st ! a \<and>
     take (length st) (fst (detect_revenue_outliers_st st a)) = st \<and>
     fst (detect_revenue_outliers_st st a) ! a = st ! a \<and>
     take (length st) (fst (run_full_validation st a missing)) = st \<and>
     fst (run_full_validation st a missing) ! a = st ! a \<and>
     fst (baseline_metrics_st st a) = st"
proof -
  obtain f where f: "fst (monthly_kpis st a) = st @ [f]"
    using monthly_kpis_store by blast
  obtain g where g: "fst (prepare_monthly_series st a) = st @ [g]"
    using prepare_monthly_series_store by blast
  obtain h where h: "fst (revenue_decomposition mst b) = mst @ [h]"
    using revenue_decomposition_store by blast
  obtain vs where vs: "fst (validate_business_rules_st st a) = st @ vs"
    using validate_business_rules_store by blast
  obtain ds where ds: "fst (detect_revenue_outliers_st st a) = st @ ds"
    using detect_revenue_outliers_store by blast
  obtain rs where rs: "fst (run_full_validation st a missing) = st @ rs"
    using run_full_validation_store by blast
  have p: "frames (fst (pareto_products_st \<lparr>frames = st, tables = ts\<rparr> a threshold)) = st"
    "take (length ts)
       (tables (fst (pareto_products_st \<lparr>frames = st, tables = ts\<rparr> a threshold))) = ts"
    "frames (fst (pareto_categories_st \<lparr>frames = st, tables = ts\<rparr> a threshold)) = st"
    "take (length ts)
       (tables (fst (pareto_categories_st \<lparr>frames = st, tables = ts\<rparr> a threshold))) = ts"
    unfolding pareto_products_st_def pareto_categories_st_def
    using pareto_by_store [of product_name "''product_name''" "\<lparr>frames = st, tables = ts\<rparr>" a threshold]
      pareto_by_store [of category "''category''" "\<lparr>frames = st, tables = ts\<rparr>" a threshold]
    by simp_all
  have s: "\<forall>r. validate_schema_st st a r \<longrightarrow> fst r = st"
    by (simp add: validate_schema_st_def)
  show ?thesis
    unfolding f g h vs ds rs
    using a b p s by (simp add: nth_append baseline_metrics_store)
qed

theorem source_dataset_not_mutated_witness:
  "fst (monthly_kpis
     [\<lparr>columns = REQUIRED_COLUMNS,
       rows = [\<lparr>order_id = Some 1, order_date = (2024, 1, 5), product_name = ''pen'',
                 category = ''office'', region = ''north'', quantity = 2, unit_price = 50,
                 revenue = 100, order_month = (0, 0)\<rparr>]\<rparr>] 0) ! 0 =
     \<lparr>columns = REQUIRED_COLUMNS,
       rows = [\<lparr>order_id = Some 1, order_date = (2024, 1, 5), product_name = ''pen'',
                 category = ''office'', region = ''north'', quantity = 2, unit_price = 50,
                 revenue = 100, order_month = (0, 0)\<rparr>]\<rparr> \<and>
   fst (revenue_decomposition
     [\<lparr>mcolumns = [''order_month'', ''revenue'', ''orders'', ''aov''],
       mrows = [\<lparr>m_order_month = (2024, 1), m_revenue = 100, orders = 2, aov = Fin 50,
                 prev_revenue = NaN, prev_orders = NaN, prev_aov = NaN,
                 revenue_change = NaN, orders_effect = NaN, aov_effect = NaN\<rparr>]\<rparr>] 0) ! 0 =
     \<lparr>mcolumns = [''order_month'', ''revenue'', ''orders'', ''aov''],
       mrows = [\<lparr>m_order_month = (2024, 1), m_revenue = 100, orders = 2, aov = Fin 50,
                 prev_revenue = NaN, prev_orders = NaN, prev_aov = NaN,
                 revenue_change = NaN, orders_effect = NaN, aov_effect = NaN\<rparr>]\<rparr>"
  using source_dataset_not_mutated
    [of 0 "[\<lparr>columns = REQUIRED_COLUMNS,
       rows = [\<lparr>order_id = Some 1, order_date = (2024, 1, 5), product_name = ''pen'',
                 category = ''office'', region = ''north'', quantity = 2, unit_price = 50,
                 revenue = 100, order_month = (0, 0)\<rparr>]\<rparr>]"
        0 "[\<lparr>mcolumns = [''order_month'', ''revenue'', ''orders'', ''aov''],
       mrows = [\<lparr>m_order_month = (2024, 1), m_revenue = 100, orders = 2, aov = Fin 50,
                 prev_revenue = NaN, prev_orders = NaN, prev_aov = NaN,
                 revenue_change = NaN, orders_effect = NaN, aov_effect = NaN\<rparr>]\<rparr>]"]
  by simp

text \<open>The store-passing functions return what the functions on values compute.\<close>

lemma detect_revenue_outliers_st_value:
  "detect_revenue_outliers_st st a =
     (case detect_revenue_outliers (st ! a) of
        Inl e \<Rightarrow> (st, Inl e)
      | Inr out \<Rightarrow> (st @ [out], Inr (length st)))"
  by (simp add: detect_revenue_outliers_st_def detect_revenue_outliers_def alloc_def Let_def)

lemma baseline_metrics_st_value:
  "baseline_metrics_st st a = (st, baseline_metrics (st ! a))"
  by (simp add: baseline_metrics_st_def baseline_metrics_def)

lemma validate_business_rules_st_value:
  assumes "a < length st" "validate_business_rules (st ! a) = Inr i"
  shows "validate_business_rules_st st a =
     (st @ [invalid_quantity i, invalid_price i, revenue_mismatch i],
      Inr \<lparr>ref_invalid_quantity = length st, ref_invalid_price = length st + 1,
           ref_revenue_mismatch = length st + 2\<rparr>)"
  using assms
  by (auto simp: validate_business_rules_st_def validate_business_rules_def alloc_def Let_def
      nth_append split: if_splits)

lemma length_cumsum: "length (cumsum acc xs) = length xs"
  by (induction xs arbitrary: acc) simp_all

lemma pareto_by_st_value:
  assumes "pareto_by key col (frames S ! a) t = Inr out"
  shows "snd (pareto_by_st key col S a t) = Inr (length (tables S)) \<and>
     prows (tables (fst (pareto_by_st key col S a t)) ! length (tables S)) = out"
proof -
  define P where "P = sort_key (\<lambda>g. - snd g)
      (map (\<lambda>k. (k, sum_list (map revenue (group_rows key k (rows (frames S ! a))))))
         (group_keys key (rows (frames S ! a))))"
  define tot where "tot = sum_list (map snd P)"
  define shares where "shares = map (\<lambda>g. fl_div (Fin (snd g)) (Fin tot)) P"
  define cums where "cums = cumsum (Fin 0) shares"
  have c: "has_col (frames S ! a) col" "has_col (frames S ! a) ''revenue''"
    using assms by (auto simp: pareto_by_def split: if_splits)
  have out: "out = map (\<lambda>(g, s, c). \<lparr>p_key = fst g, p_revenue = snd g, revenue_share = s,
                   cumulative_share = c, pareto_flag = fl_le c (Fin t)\<rparr>)
                (zip P (zip shares cums))"
    using assms c
    by (simp add: pareto_by_def Let_def P_def [symmetric] tot_def [symmetric]
        shares_def [symmetric] cums_def [symmetric] del: fl_div.simps)
  have lens: "length shares = length P" "length cums = length P"
    by (simp_all add: shares_def cums_def length_cumsum)
  define r0 where "r0 = map (\<lambda>g. \<lparr>p_key = fst g, p_revenue = snd g, revenue_share = NaN,
                               cumulative_share = NaN, pareto_flag = False\<rparr>) P"
  define r1 where "r1 = map2 (\<lambda>r v. r\<lparr>revenue_share := v\<rparr>) r0
                          (map (\<lambda>r. fl_div (Fin (p_revenue r)) (Fin (sum_list (map p_revenue r0)))) r0)"
  define r2 where "r2 = map2 (\<lambda>r v. r\<lparr>cumulative_share := v\<rparr>) r1
                          (cumsum (Fin 0) (map revenue_share r1))"
  define r3 where "r3 = map2 (\<lambda>r v. r\<lparr>pareto_flag := v\<rparr>) r2
                          (map (\<lambda>r. fl_le (cumulative_share r) (Fin t)) r2)"
  have tot0: "sum_list (map p_revenue r0) = tot"
    by (simp add: r0_def tot_def comp_def)
  have e1: "r1 = map (\<lambda>i. \<lparr>p_key = fst (P ! i), p_revenue = snd (P ! i),
                 revenue_share = shares ! i, cumulative_share = NaN, pareto_flag = False\<rparr>)
               [0..<length P]"
    unfolding r1_def tot0
    by (intro nth_equalityI) (simp_all add: r0_def shares_def del: fl_div.simps)
  have sh: "map revenue_share r1 = shares"
    unfolding e1 using lens by (intro nth_equalityI) simp_all
  have e2: "r2 = map (\<lambda>i. \<lparr>p_key = fst (P ! i), p_revenue = snd (P ! i),
                 revenue_share = shares ! i, cumulative_share = cums ! i, pareto_flag = False\<rparr>)
               [0..<length P]"
    unfolding r2_def sh cums_def [symmetric]
    using lens by (intro nth_equalityI) (simp_all add: e1)
  have e3: "r3 = map (\<lambda>i. \<lparr>p_key = fst (P ! i), p_revenue = snd (P ! i),
                 revenue_share = shares ! i, cumulative_share = cums ! i,
                 pareto_flag = fl_le (cums ! i) (Fin t)\<rparr>)
               [0..<length P]"
    unfolding r3_def
    by (intro nth_equalityI) (simp_all add: e2)
  have o3: "out = r3"
    unfolding out e3 using lens
    by (subst map_third_zip) simp_all
  have nth: "\<And>x. (tables S @ [x]) ! length (tables S) = x" by simp
  have upd: "\<And>x y. (tables S @ [x])[length (tables S) := y] = tables S @ [y]" by simp
  have "snd (pareto_by_st key col S a t) = Inr (length (tables S)) \<and>
     prows (tables (fst (pareto_by_st key col S a t)) ! length (tables S)) = r3"
    unfolding pareto_by_st_def r3_def r2_def r1_def r0_def P_def using c
    by (simp add: nth upd Let_def psetitem_def
        del: nth_append_length list_update_length fl_div.simps)
  then show ?thesis using o3 by simp
qed

subsection \<open>The revenue sums in float64\<close>


lemma bexp_numeral:
  "bexp (numeral k) x =
     (if 2 \<le> x then bexp (pred_numeral k) (x / 2) + 1
      else if x < 1 then bexp (pred_numeral k) (2 * x) - 1 else 0)"
  by (simp add: numeral_eq_Suc)

lemmas float64_eval =
  round64_def bexp_numeral ulp_def round_even_def add64_def sub64_def sum64_def Let_def

text \<open>The float64 numbers nearest to 0.1, 0.2 and 0.3.\<close>

lemma float64_tenths:
  "round64 (1 / 10) = 3602879701896397 / 36028797018963968"
  "round64 (2 / 10) = 3602879701896397 / 18014398509481984"
  "round64 (3 / 10) = 5404319552844595 / 18014398509481984"
  by (simp_all add: float64_eval)





















end
